theory Spec2Isabelle
  imports Main "HOL-Library.Sublist" "HOL-Library.Multiset" "HOL-Library.Word"
begin

section \<open>Strings\<close>

text \<open>
  A JavaScript string is a sequence of UTF-16 code units: \<open>length\<close>, \<open>substring\<close>,
  \<open>includes\<close> and \<open>trim\<close> count and compare code units. \<open>js\<close> turns a literal of
  ASCII characters into the string of its code units.
\<close>

type_synonym jstring = "16 word list"

definition js :: "string \<Rightarrow> jstring" where
  "js s = map of_char s"

text \<open>\<open>s.includes(sub)\<close>: \<open>sub\<close> occurs in \<open>s\<close> as a contiguous run.\<close>

definition str_includes :: "jstring \<Rightarrow> jstring \<Rightarrow> bool" where
  "str_includes s sub = sublist sub s"

text \<open>\<open>parts.join(sep)\<close>.\<close>

fun join :: "jstring list \<Rightarrow> jstring \<Rightarrow> jstring" where
  "join [] sep = []"
| "join [x] sep = x"
| "join (x # y # ys) sep = x @ sep @ join (y # ys) sep"

text \<open>
  The code units that \<open>s.trim()\<close> strips: the white space and the line terminators of
  ECMAScript, which are TAB, VT, FF, SP, NBSP, ZWNBSP, the space separators of Unicode, LF,
  CR, LS and PS.
\<close>

definition is_space :: "16 word \<Rightarrow> bool" where
  "is_space u = (u \<in> set [0x0009, 0x000A, 0x000B, 0x000C, 0x000D, 0x0020, 0x00A0, 0x1680,
      0x2000, 0x2001, 0x2002, 0x2003, 0x2004, 0x2005, 0x2006, 0x2007, 0x2008, 0x2009,
      0x200A, 0x2028, 0x2029, 0x202F, 0x205F, 0x3000, 0xFEFF])"

definition trim :: "jstring \<Rightarrow> jstring" where
  "trim s = rev (dropWhile is_space (rev (dropWhile is_space s)))"

section \<open>Service detection (lib/extractors.ts)\<close>

text \<open>
  Every entry of \<open>SERVICE_PATTERNS\<close> is a regular expression of the shape
  \<open>/^literal/\<close> (the escapes \<open>\/\<close> and \<open>\.\<close> stand for the characters themselves, and
  no flag is set), so \<open>pattern.test(url)\<close> holds exactly when \<open>url\<close> starts with the
  literal. The table keeps the declaration order, which is the order in which
  \<open>Object.entries\<close> enumerates the keys.
\<close>

definition SERVICE_PATTERNS :: "(jstring \<times> jstring) list" where
  "SERVICE_PATTERNS =
    [(js ''gemini'', js ''https://gemini.google.com/app/''),
     (js ''googleDocs'', js ''https://docs.google.com/document/''),
     (js ''notebookLM'', js ''https://notebooklm.google.com/''),
     (js ''chatgpt'', js ''https://chatgpt.com/c/''),
     (js ''grok'', js ''https://grok.com/c/''),
     (js ''discord'', js ''https://discord.com/channels/''),
     (js ''slack'', js ''https://app.slack.com/client/''),
     (js ''raindrop'', js ''https://app.raindrop.io/my/'')]"

definition regex_test :: "jstring \<Rightarrow> jstring \<Rightarrow> bool" where
  "regex_test pattern url = prefix pattern url"

text \<open>The \<open>for ... of\<close> loop of \<open>detectService\<close>, over any table.\<close>

fun detectLoop :: "(jstring \<times> jstring) list \<Rightarrow> jstring \<Rightarrow> jstring option" where
  "detectLoop [] url = None"
| "detectLoop ((service, pattern) # rest) url =
     (if regex_test pattern url then Some service else detectLoop rest url)"

definition detectService :: "jstring \<Rightarrow> jstring option" where
  "detectService url = detectLoop SERVICE_PATTERNS url"

section \<open>The page: document tree, selectors, DOM operations\<close>

text \<open>
  The browser is outside the repository. The document of the page is a tree of elements
  and text nodes, with the root element at the top. The operations of the DOM that the
  scripts of the extractors use are defined on it: \<open>querySelectorAll\<close> (document order),
  \<open>querySelector\<close>, \<open>closest\<close>, \<open>parentElement\<close>, \<open>remove\<close>, \<open>document.body\<close>. Every
  element is taken to be an \<open>HTMLElement\<close>.
\<close>

datatype node = Text jstring | Element jstring "(jstring \<times> jstring) list" "node list"

text \<open>An element together with its ancestors, the parent first.\<close>

type_synonym located = "node \<times> node list"

fun attrs :: "node \<Rightarrow> (jstring \<times> jstring) list" where
  "attrs (Text s) = []"
| "attrs (Element t a ks) = a"

fun children :: "node \<Rightarrow> node list" where
  "children (Text s) = []"
| "children (Element t a ks) = ks"

text \<open>
  The tokens of a \<open>class\<close> attribute, separated by the ASCII white space of HTML: TAB,
  LF, FF, CR and SP.
\<close>

definition is_ascii_space :: "16 word \<Rightarrow> bool" where
  "is_ascii_space u = (u \<in> set [0x0009, 0x000A, 0x000C, 0x000D, 0x0020])"

definition tokens :: "jstring \<Rightarrow> jstring list" where
  "tokens s = filter (\<lambda>w. w \<noteq> [])
     (foldr (\<lambda>c acc. if is_ascii_space c then [] # acc
                      else (case acc of [] \<Rightarrow> [[c]] | w # ws \<Rightarrow> (c # w) # ws)) s [])"

text \<open>
  The selectors of the source: a comma-separated list of compound selectors, each a
  conjunction of a tag name \<open>t\<close>, a class \<open>.c\<close>, an attribute test \<open>[a]\<close>, \<open>[a="v"]\<close> or
  \<open>[a*="v"]\<close>.
\<close>

datatype simple = Tag jstring | Class jstring | Attr jstring
  | AttrEq jstring jstring | AttrHas jstring jstring

type_synonym selector = "simple list list"

fun matches_simple :: "node \<Rightarrow> simple \<Rightarrow> bool" where
  "matches_simple (Text s) x = False"
| "matches_simple (Element t a ks) (Tag t') = (t = t')"
| "matches_simple (Element t a ks) (Class c) =
     (case map_of a (js ''class'') of None \<Rightarrow> False | Some v \<Rightarrow> c \<in> set (tokens v))"
| "matches_simple (Element t a ks) (Attr n) = (map_of a n \<noteq> None)"
| "matches_simple (Element t a ks) (AttrEq n v) = (map_of a n = Some v)"
| "matches_simple (Element t a ks) (AttrHas n v) =
     (case map_of a n of None \<Rightarrow> False | Some v' \<Rightarrow> v \<noteq> [] \<and> sublist v v')"

definition matches :: "selector \<Rightarrow> node \<Rightarrow> bool" where
  "matches sel n = list_ex (\<lambda>compound. list_all (matches_simple n) compound) sel"

text \<open>The element \<open>n\<close> and the elements below it, in document order.\<close>

fun locate :: "node list \<Rightarrow> node \<Rightarrow> located list" where
  "locate anc (Text s) = []"
| "locate anc (Element t a ks) =
     (Element t a ks, anc) # concat (map (locate (Element t a ks # anc)) ks)"

definition querySelectorAll :: "selector \<Rightarrow> node \<Rightarrow> located list" where
  "querySelectorAll sel d = filter (\<lambda>l. matches sel (fst l)) (locate [] d)"

definition querySelector :: "selector \<Rightarrow> node \<Rightarrow> located option" where
  "querySelector sel d = (case querySelectorAll sel d of [] \<Rightarrow> None | l # ls \<Rightarrow> Some l)"

text \<open>\<open>el.querySelectorAll\<close> and \<open>el.querySelector\<close>: the elements below \<open>el\<close>, not \<open>el\<close>.\<close>

definition el_querySelectorAll :: "selector \<Rightarrow> located \<Rightarrow> located list" where
  "el_querySelectorAll sel el =
     filter (\<lambda>l. matches sel (fst l))
       (concat (map (locate (fst el # snd el)) (children (fst el))))"

definition el_querySelector :: "selector \<Rightarrow> located \<Rightarrow> located option" where
  "el_querySelector sel el =
     (case el_querySelectorAll sel el of [] \<Rightarrow> None | l # ls \<Rightarrow> Some l)"

fun closest_in :: "selector \<Rightarrow> node list \<Rightarrow> located option" where
  "closest_in sel [] = None"
| "closest_in sel (p # ps) = (if matches sel p then Some (p, ps) else closest_in sel ps)"

definition closest :: "selector \<Rightarrow> located \<Rightarrow> located option" where
  "closest sel el = closest_in sel (fst el # snd el)"

definition parentElement :: "located \<Rightarrow> located option" where
  "parentElement el = (case snd el of [] \<Rightarrow> None | p # ps \<Rightarrow> Some (p, ps))"

text \<open>
  \<open>root.querySelectorAll(sel).forEach(el => el.remove())\<close>: every element below the root
  that matches is taken out of the tree. The root stays: it is the \<open>html\<close> element or a
  detached clone, which the selectors of the source do not select.
\<close>

fun remove_all :: "selector \<Rightarrow> node \<Rightarrow> node" where
  "remove_all sel (Text s) = Text s"
| "remove_all sel (Element t a ks) =
     Element t a (map (remove_all sel) (filter (\<lambda>k. \<not> matches sel k) ks))"

text \<open>\<open>document.body\<close>: the first \<open>body\<close> or \<open>frameset\<close> child of the root, or \<open>null\<close>.\<close>

definition body :: "node \<Rightarrow> node option" where
  "body d = find (\<lambda>k. matches [[Tag (js ''body'')], [Tag (js ''frameset'')]] k) (children d)"

text \<open>
  What the rendering engine computes is a parameter: \<open>innerText\<close> (which depends on the
  style sheets), \<open>innerHTML\<close>, the resolved \<open>href\<close> of a link, and the message of the
  \<open>TypeError\<close> that a script raises when it reads a property of \<open>null\<close>.
\<close>

record engine =
  innerText :: "node \<Rightarrow> jstring"
  innerHTML :: "node \<Rightarrow> jstring"
  href :: "node \<Rightarrow> jstring"
  typeError :: jstring

section \<open>Browser calls, failures and the trace\<close>

text \<open>
  A value thrown in the source is an \<open>Error\<close> with its message. The asynchronous calls
  of the browser API that the source awaits are recorded in a trace, in the order in
  which they are issued.
\<close>

datatype err = Error jstring

fun message :: "err \<Rightarrow> jstring" where
  "message (Error m) = m"

text \<open>
  The scripts passed to \<open>page.evaluate\<close>: the assignment \<open>scroller.scrollTop = 0\<close> (with
  the element chosen as scroller, \<open>None\<close> for \<open>window\<close>), the structured extraction of an
  extractor, the fallback written inside an extractor, the script of \<open>extractGeneric\<close>,
  and the script of \<open>fetchAuthenticated\<close>.
\<close>

datatype script = SetScrollTop "node option" | Fragments | Fallback | Generic | BodyText

datatype call =
    LaunchPersistentContext bool
  | NewPage
  | AddInitScript
  | Goto jstring
  | WaitForTimeout nat
  | WaitForSelector selector nat
  | Content
  | QueryLink
  | ClickLink
  | QueryButton nat
  | ClickButton nat
  | Title
  | Evaluate script
  | Close

text \<open>
  The world in which the code runs. \<open>profile\<close> is \<open>existsSync(PROFILE_DIR)\<close>.
  \<open>fault k\<close> is the message with which the \<open>k\<close>-th call of the trace rejects, if it
  does; any call can reject. \<open>react\<close> is what the page itself does to its document
  after a call (loading, lazy loading after a scroll, the effect of a click).
  \<open>firstPage\<close> tells whether \<open>context.pages()[0]\<close> is defined. \<open>page_content\<close> and
  \<open>page_title\<close> are the results of \<open>page.content()\<close> and \<open>page.title()\<close>,
  \<open>browserLink\<close> tells whether \<open>page.$\<close> finds the continue-in-browser link, and
  \<open>frames\<close> tells, for every frame of \<open>page.frames()\<close> in order, whether \<open>frame.$\<close>
  finds an accept button. \<open>trace\<close> lists the calls issued so far.
\<close>

record world =
  profile :: bool
  fault :: "nat \<Rightarrow> jstring option"
  react :: "call \<Rightarrow> node \<Rightarrow> node"
  eng :: engine
  firstPage :: bool
  document :: node
  page_content :: "node \<Rightarrow> jstring"
  page_title :: "node \<Rightarrow> jstring"
  browserLink :: "node \<Rightarrow> bool"
  frames :: "node \<Rightarrow> bool list"
  trace :: "call list"

text \<open>An asynchronous function: it ends with a value or a thrown error, in a new world.\<close>

type_synonym 'a io = "world \<Rightarrow> (err + 'a) \<times> world"

definition io_return :: "'a \<Rightarrow> 'a io" where
  "io_return x w = (Inr x, w)"

definition io_throw :: "err \<Rightarrow> 'a io" where
  "io_throw e w = (Inl e, w)"

definition io_bind :: "'a io \<Rightarrow> ('a \<Rightarrow> 'b io) \<Rightarrow> 'b io" where
  "io_bind m f w = (case m w of (Inl e, w') \<Rightarrow> (Inl e, w') | (Inr x, w') \<Rightarrow> f x w')"

text \<open>\<open>try { m } catch (e) { h e }\<close>, and \<open>promise.catch(h)\<close>.\<close>

definition io_catch :: "'a io \<Rightarrow> (err \<Rightarrow> 'a io) \<Rightarrow> 'a io" where
  "io_catch m h w = (case m w of (Inl e, w') \<Rightarrow> h e w' | (Inr x, w') \<Rightarrow> (Inr x, w'))"

text \<open>
  \<open>try { m } finally { c }\<close>: \<open>c\<close> runs however \<open>m\<close> ends; the outcome is that of \<open>m\<close>
  unless \<open>c\<close> throws.
\<close>

definition io_finally :: "'a io \<Rightarrow> unit io \<Rightarrow> 'a io" where
  "io_finally m c w =
     (case m w of (r, w') \<Rightarrow>
        (case c w' of (Inl e, w'') \<Rightarrow> (Inl e, w'') | (Inr u, w'') \<Rightarrow> (r, w'')))"

text \<open>An awaited call of the browser API that answers with \<open>v\<close>.\<close>

definition request :: "call \<Rightarrow> (world \<Rightarrow> 'a) \<Rightarrow> 'a io" where
  "request c v w =
     (case fault w (length (trace w)) of
        Some m \<Rightarrow> (Inl (Error m), w\<lparr>trace := trace w @ [c]\<rparr>)
      | None \<Rightarrow> (Inr (v w),
                 w\<lparr>trace := trace w @ [c], document := react w c (document w)\<rparr>))"

definition perform :: "call \<Rightarrow> unit io" where
  "perform c = request c (\<lambda>w. ())"

text \<open>
  \<open>page.evaluate(f)\<close>: the script runs on the document, may change it, and ends with a
  value or throws.
\<close>

definition evaluate :: "script \<Rightarrow> (engine \<Rightarrow> node \<Rightarrow> (err + 'a) \<times> node) \<Rightarrow> 'a io" where
  "evaluate s f w =
     (case fault w (length (trace w)) of
        Some m \<Rightarrow> (Inl (Error m), w\<lparr>trace := trace w @ [Evaluate s]\<rparr>)
      | None \<Rightarrow>
         (case f (eng w) (document w) of (r, d') \<Rightarrow>
            (r, w\<lparr>trace := trace w @ [Evaluate s],
                  document := react w (Evaluate s) d'\<rparr>)))"

text \<open>\<open>for (let i = 0; i < n; i++) { b }\<close>, for a body that does not read \<open>i\<close>.\<close>

fun for_loop :: "nat \<Rightarrow> unit io \<Rightarrow> unit io" where
  "for_loop 0 b = io_return ()"
| "for_loop (Suc n) b = io_bind b (\<lambda>u. for_loop n b)"

section \<open>Extractors (lib/extractors.ts)\<close>

text \<open>A script that only reads the document.\<close>

definition reading :: "(engine \<Rightarrow> node \<Rightarrow> 'a) \<Rightarrow> engine \<Rightarrow> node \<Rightarrow> (err + 'a) \<times> node" where
  "reading g e d = (Inr (g e d), d)"

text \<open>\<open>a || b || window\<close> for the scroller, and the script that sets its \<open>scrollTop\<close>.\<close>

definition scroller :: "selector \<Rightarrow> selector \<Rightarrow> node \<Rightarrow> node option" where
  "scroller a b d =
     (case querySelector a d of Some l \<Rightarrow> Some (fst l)
      | None \<Rightarrow> (case querySelector b d of Some l \<Rightarrow> Some (fst l) | None \<Rightarrow> None))"

definition scrollToTop :: "selector \<Rightarrow> selector \<Rightarrow> unit io" where
  "scrollToTop a b w =
     evaluate (SetScrollTop (scroller a b (document w))) (reading (\<lambda>e d. ())) w"

text \<open>\<open>await page.waitForSelector(sel, { timeout: t }).catch(() => { })\<close>.\<close>

definition waitForSelector_caught :: "selector \<Rightarrow> nat \<Rightarrow> unit io" where
  "waitForSelector_caught sel t = io_catch (perform (WaitForSelector sel t)) (\<lambda>e. io_return ())"

subsection \<open>extractGeneric\<close>

definition genericScript :: "engine \<Rightarrow> node \<Rightarrow> (err + jstring) \<times> node" where
  "genericScript e d =
     (let d' = remove_all [[Tag (js ''script'')], [Tag (js ''style'')], [Tag (js ''noscript'')],
                           [Tag (js ''nav'')], [Tag (js ''header'')], [Tag (js ''footer'')]] d in
      case (case querySelector [[Tag (js ''main'')], [Tag (js ''article'')], [AttrEq (js ''role'') (js ''main'')]] d' of
              Some l \<Rightarrow> Some (fst l) | None \<Rightarrow> body d') of
        None \<Rightarrow> (Inl (Error (typeError e)), d')
      | Some main \<Rightarrow> (Inr (innerText e main), d'))"

definition extractGeneric :: "jstring io" where
  "extractGeneric = evaluate Generic genericScript"

subsection \<open>extractChatGPT\<close>

definition chatgptCollect :: "engine \<Rightarrow> node \<Rightarrow> jstring list" where
  "chatgptCollect e d =
     foldl (\<lambda>results turn.
        let isUser = (el_querySelector [[AttrEq (js ''data-testid'') (js ''user-message'')]] turn \<noteq> None) in
        case el_querySelector [[Class (js ''markdown'')], [Class (js ''prose'')],
                               [Attr (js ''data-message-author-role'')]] turn of
          None \<Rightarrow> results
        | Some contentEl \<Rightarrow>
            (let author = (if isUser then (js ''**User:**'') else (js ''**ChatGPT:**''));
                 text = trim (innerText e (fst contentEl))
             in if text \<noteq> [] then results @ [author @ js ''\<newline>'' @ text] else results))
       [] (querySelectorAll [[AttrHas (js ''data-testid'') (js ''conversation-turn'')]] d)"

definition chatgptMessages :: "jstring list io" where
  "chatgptMessages =
     io_bind (waitForSelector_caught [[AttrHas (js ''data-testid'') (js ''conversation-turn'')]] 15000) (\<lambda>u.
     io_bind (for_loop 10
        (io_bind (scrollToTop [[Class (js ''react-scroll-to-bottom--css-pgsnv-1n7m0yu'')]]
                              [[Tag (js ''div''), AttrHas (js ''class'') (js ''overflow-y-auto'')]]) (\<lambda>u.
         perform (WaitForTimeout 1000)))) (\<lambda>u.
     evaluate Fragments (reading chatgptCollect)))"

definition extractChatGPT :: "jstring io" where
  "extractChatGPT =
     io_bind chatgptMessages (\<lambda>messages.
       if length messages = 0 then extractGeneric
       else io_return (join messages (js ''\<newline>\<newline>---\<newline>\<newline>'')))"

subsection \<open>extractGrok\<close>

definition grokCollect :: "engine \<Rightarrow> node \<Rightarrow> jstring list" where
  "grokCollect e d =
     foldl (\<lambda>results el.
        let text = trim (innerText e (fst el)) in
        if text \<noteq> [] \<and> length text > 5 then
          (let container = closest [[AttrHas (js ''class'') (js ''message'')]] el;
               isUser =
                 ((case container of None \<Rightarrow> False
                   | Some c \<Rightarrow> str_includes (innerText e (fst c)) (js ''You''))
                  \<or> (case parentElement el of None \<Rightarrow> False
                      | Some p \<Rightarrow> str_includes (innerText e (fst p)) (js ''You'')));
               author = (if isUser then (js ''**User:**'') else (js ''**Grok:**''))
           in if \<not> list_ex (\<lambda>r. str_includes r (take 50 text)) results
              then results @ [author @ js ''\<newline>'' @ text] else results)
        else results)
       [] (querySelectorAll [[Class (js ''prose'')], [AttrHas (js ''class'') (js ''message'')],
                             [AttrEq (js ''data-testid'') (js ''message-container'')]] d)"

definition grokMessages :: "jstring list io" where
  "grokMessages =
     io_bind (perform (WaitForTimeout 10000)) (\<lambda>u.
     io_bind (for_loop 15
        (io_bind (scrollToTop [[Tag (js ''div''), AttrHas (js ''class'') (js ''overflow-y-auto'')]]
                              [[Tag (js ''main'')]]) (\<lambda>u.
         perform (WaitForTimeout 1000)))) (\<lambda>u.
     evaluate Fragments (reading grokCollect)))"

text \<open>The fallback script written inside \<open>extractGrok\<close> and \<open>extractGeminiChat\<close>.\<close>

definition mainOrBodyScript :: "engine \<Rightarrow> node \<Rightarrow> (err + jstring) \<times> node" where
  "mainOrBodyScript e d =
     (case (case querySelector [[Tag (js ''main'')]] d of
              Some l \<Rightarrow> Some (fst l) | None \<Rightarrow> body d) of
        None \<Rightarrow> (Inl (Error (typeError e)), d)
      | Some main \<Rightarrow> (Inr (innerText e main), d))"

definition extractGrok :: "jstring io" where
  "extractGrok =
     io_bind grokMessages (\<lambda>messages.
       if length messages = 0 then evaluate Fallback mainOrBodyScript
       else io_return (join messages (js ''\<newline>\<newline>---\<newline>\<newline>'')))"

subsection \<open>extractSlack\<close>

definition slackCollect :: "engine \<Rightarrow> node \<Rightarrow> jstring list" where
  "slackCollect e d =
     foldl (\<lambda>results el.
        let authorEl = el_querySelector [[Class (js ''c-message__sender_button'')],
                         [AttrEq (js ''data-qa'') (js ''message_sender_name'')],
                         [Class (js ''c-message__sender'')]] el;
            bodyEl = el_querySelector [[Class (js ''c-message_kit__blocks'')],
                         [Class (js ''c-message__body'')], [Class (js ''c-message__content-body'')]] el;
            timeEl = el_querySelector [[Class (js ''c-timestamp__label'')], [Class (js ''c-timestamp'')]] el
        in case (authorEl, bodyEl) of
             (Some a, Some b) \<Rightarrow>
               (let author = trim (innerText e (fst a));
                    content = trim (innerText e (fst b));
                    time = (case timeEl of None \<Rightarrow> [] | Some t \<Rightarrow> trim (innerText e (fst t)))
                in if content \<noteq> [] \<and> \<not> list_ex (\<lambda>m. str_includes m (take 50 content)) results
                   then results @ [js ''**'' @ author @ js ''** ['' @ time @ js '']: '' @ content]
                   else results)
           | _ \<Rightarrow> results)
       [] (querySelectorAll [[Class (js ''c-message_kit__message'')], [Class (js ''c-message--light'')],
                             [AttrEq (js ''role'') (js ''listitem'')]] d)"

definition slackMessages :: "jstring list io" where
  "slackMessages =
     io_bind (waitForSelector_caught [[Class (js ''c-message_kit__message'')],
                                      [AttrEq (js ''role'') (js ''listitem'')]] 15000) (\<lambda>u.
     io_bind (for_loop 15
        (io_bind (scrollToTop [[Class (js ''c-scrollbar__hider'')]]
                              [[Class (js ''c-virtual_list__scroll_container'')]]) (\<lambda>u.
         perform (WaitForTimeout 800)))) (\<lambda>u.
     evaluate Fragments (reading slackCollect)))"

definition extractSlack :: "jstring io" where
  "extractSlack =
     io_bind slackMessages (\<lambda>messages.
       if length messages = 0 then extractGeneric
       else io_return (join messages (js ''\<newline>\<newline>'')))"

subsection \<open>extractDiscord\<close>

definition discordCollect :: "engine \<Rightarrow> node \<Rightarrow> jstring list" where
  "discordCollect e d =
     foldl (\<lambda>results el.
        case closest [[AttrHas (js ''class'') (js ''message-'')]] el of
          None \<Rightarrow> results
        | Some container \<Rightarrow>
            (let author = (case el_querySelector [[AttrHas (js ''class'') (js ''username-'')]] container of
                             None \<Rightarrow> (js ''Unknown'') | Some a \<Rightarrow> innerText e (fst a));
                 content = innerText e (fst el)
             in if content \<noteq> [] then results @ [js ''**'' @ author @ js ''**: '' @ content]
                else results))
       [] (querySelectorAll [[AttrHas (js ''class'') (js ''messageContent-'')]] d)"

definition discordMessages :: "jstring list io" where
  "discordMessages =
     io_bind (waitForSelector_caught [[AttrEq (js ''role'') (js ''list'')]] 15000) (\<lambda>u.
     evaluate Fragments (reading discordCollect))"

definition extractDiscord :: "jstring io" where
  "extractDiscord =
     io_bind discordMessages (\<lambda>messages.
       if length messages = 0 then extractGeneric
       else io_return (join messages (js ''\<newline>\<newline>'')))"

subsection \<open>extractGeminiChat\<close>

definition geminiCollect :: "engine \<Rightarrow> node \<Rightarrow> jstring list" where
  "geminiCollect e d =
     foldl (\<lambda>conversation el.
        let text = trim (innerText e (fst el)) in
        if text \<noteq> [] then
          (let isUser = (closest [[AttrEq (js ''data-speaker'') (js ''user'')]] el \<noteq> None);
               pre = (if isUser then (js ''**User:**'') else (js ''**Gemini:**''))
           in conversation @ [pre @ js ''\<newline>'' @ text])
        else conversation)
       [] (querySelectorAll [[Attr (js ''data-message-id'')]] d)"

definition geminiMessages :: "jstring list io" where
  "geminiMessages =
     io_bind (waitForSelector_caught [[Attr (js ''data-message-id'')]] 10000) (\<lambda>u.
     evaluate Fragments (reading geminiCollect))"

definition extractGeminiChat :: "jstring io" where
  "extractGeminiChat =
     io_bind geminiMessages (\<lambda>messages.
       if length messages = 0 then evaluate Fallback mainOrBodyScript
       else io_return (join messages (js ''\<newline>\<newline>---\<newline>\<newline>'')))"

subsection \<open>extractGoogleDoc\<close>

definition googleDocCollect :: "engine \<Rightarrow> node \<Rightarrow> jstring" where
  "googleDocCollect e d =
     (case querySelector [[Class (js ''kix-appview-editor'')]] d of
        Some editor \<Rightarrow>
          innerText e (remove_all [[Tag (js ''script'')], [Tag (js ''style'')], [Class (js ''kix-cursor'')],
                                   [Class (js ''kix-selection-overlay'')]] (fst editor))
      | None \<Rightarrow>
          (let lines = querySelectorAll [[Class (js ''kix-lineview'')]] d in
           if length lines > 0 then join (map (\<lambda>l. innerText e (fst l)) lines) (js ''\<newline>'')
           else []))"

definition googleDocContent :: "jstring io" where
  "googleDocContent =
     io_bind (waitForSelector_caught [[Class (js ''kix-appview-editor'')]] 15000) (\<lambda>u.
     io_bind (perform (WaitForTimeout 3000)) (\<lambda>u.
     evaluate Fragments (reading googleDocCollect)))"

definition extractGoogleDoc :: "jstring io" where
  "extractGoogleDoc =
     io_bind googleDocContent (\<lambda>content.
       if content = [] \<or> length (trim content) < 50 then extractGeneric
       else io_return content)"

subsection \<open>extractNotebookLM\<close>

definition notebookLMCollect :: "engine \<Rightarrow> node \<Rightarrow> jstring list" where
  "notebookLMCollect e d =
     foldl (\<lambda>results turn.
        let text = trim (innerText e (fst turn)) in
        if text \<noteq> [] then
          (let isUser = (str_includes (innerHTML e (fst turn)) (js ''You'')
                         \<or> closest [[AttrHas (js ''class'') (js ''user'')]] turn \<noteq> None);
               author = (if isUser then (js ''**User:**'') else (js ''**NotebookLM:**''))
           in results @ [author @ js ''\<newline>'' @ text])
        else results)
       [] (querySelectorAll [[Class (js ''chat-turn'')], [AttrHas (js ''class'') (js ''message'')],
                             [Class (js ''source-card'')]] d)"

definition notebookLMMessages :: "jstring list io" where
  "notebookLMMessages =
     io_bind (waitForSelector_caught [[Tag (js ''main'')], [AttrEq (js ''role'') (js ''main'')],
                                      [Class (js ''source-card'')]] 20000) (\<lambda>u.
     io_bind (perform (WaitForTimeout 8000)) (\<lambda>u.
     evaluate Fragments (reading notebookLMCollect)))"

definition notebookLMFallbackScript :: "engine \<Rightarrow> node \<Rightarrow> (err + jstring) \<times> node" where
  "notebookLMFallbackScript e d =
     (case (case querySelector [[Tag (js ''main'')]] d of
              Some l \<Rightarrow> Some (fst l) | None \<Rightarrow> body d) of
        None \<Rightarrow> (Inl (Error (typeError e)), d)
      | Some main \<Rightarrow>
          (Inr (innerText e (remove_all [[Tag (js ''nav'')], [Tag (js ''header'')], [Tag (js ''button'')],
                                         [AttrEq (js ''role'') (js ''navigation'')]] main)), d))"

definition extractNotebookLM :: "jstring io" where
  "extractNotebookLM =
     io_bind notebookLMMessages (\<lambda>messages.
       if length messages = 0 then evaluate Fallback notebookLMFallbackScript
       else io_return (join messages (js ''\<newline>\<newline>---\<newline>\<newline>'')))"

subsection \<open>extractRaindrop\<close>

definition raindropCollect :: "engine \<Rightarrow> node \<Rightarrow> jstring list" where
  "raindropCollect e d =
     foldl (\<lambda>results item.
        let title = (case el_querySelector [[Class (js ''title'')], [AttrHas (js ''class'') (js ''title-'')]] item of
                       None \<Rightarrow> (js ''Untitled'') | Some t \<Rightarrow> innerText e (fst t));
            url = (case el_querySelector [[Tag (js ''a'')]] item of
                     None \<Rightarrow> (js ''No URL'') | Some l \<Rightarrow> href e (fst l))
        in if title \<noteq> [] \<and> url \<noteq> [] then results @ [js ''- ['' @ title @ js '']('' @ url @ js '')'']
           else results)
       [] (querySelectorAll [[Class (js ''bookmark'')]] d)"

definition raindropBookmarks :: "jstring list io" where
  "raindropBookmarks =
     io_bind (waitForSelector_caught [[Class (js ''bookmark'')]] 15000) (\<lambda>u.
     evaluate Fragments (reading raindropCollect))"

definition extractRaindrop :: "jstring io" where
  "extractRaindrop =
     io_bind raindropBookmarks (\<lambda>bookmarks.
       if length bookmarks = 0 then extractGeneric
       else io_return (join bookmarks (js ''\<newline>'')))"

subsection \<open>getExtractor\<close>

definition getExtractor :: "jstring \<Rightarrow> jstring io" where
  "getExtractor url =
     (let service = detectService url in
      if service = Some (js ''gemini'') then extractGeminiChat
      else if service = Some (js ''googleDocs'') then extractGoogleDoc
      else if service = Some (js ''notebookLM'') then extractNotebookLM
      else if service = Some (js ''chatgpt'') then extractChatGPT
      else if service = Some (js ''grok'') then extractGrok
      else if service = Some (js ''discord'') then extractDiscord
      else if service = Some (js ''slack'') then extractSlack
      else if service = Some (js ''raindrop'') then extractRaindrop
      else extractGeneric)"

section \<open>Authenticated fetching (lib/browser.ts)\<close>

definition hasAuthSession :: "world \<Rightarrow> bool" where
  "hasAuthSession w = profile w"

record fetched =
  title :: jstring
  content :: jstring

text \<open>\<open>context.pages()[0] || await context.newPage()\<close>.\<close>

definition firstPageOrNew :: "unit io" where
  "firstPageOrNew w = (if firstPage w then io_return () w else perform NewPage w)"

text \<open>
  The loop over \<open>page.frames()\<close>: the first frame with an accept button is clicked, and
  the loop ends there.
\<close>

fun acceptLoop :: "nat \<Rightarrow> bool list \<Rightarrow> unit io" where
  "acceptLoop i [] = io_return ()"
| "acceptLoop i (found # rest) =
     io_bind (request (QueryButton i) (\<lambda>w. found)) (\<lambda>button.
       if button then io_bind (perform (ClickButton i)) (\<lambda>u. perform (WaitForTimeout 5000))
       else acceptLoop (Suc i) rest)"

text \<open>
  The block \<open>Handle Consent Walls & Slack Redirects\<close>. It stands with the same text in
  \<open>fetchAuthenticated\<close> and in \<open>fetchWithExtractor\<close>, between the wait after the
  navigation and the reading of the title.
\<close>

definition handleBarriers :: "unit io" where
  "handleBarriers =
     io_bind (request Content (\<lambda>w. page_content w (document w))) (\<lambda>pageContent.
     io_bind
       (if str_includes pageContent (js ''open this link in your browser'')
           \<or> str_includes pageContent (js ''use Slack in your browser'')
        then io_catch
               (io_bind (request QueryLink (\<lambda>w. browserLink w (document w))) (\<lambda>link.
                  if link then io_bind (perform ClickLink) (\<lambda>u. perform (WaitForTimeout 5000))
                  else io_return ()))
               (\<lambda>e. io_return ())
        else io_return ()) (\<lambda>u.
     if str_includes pageContent (js ''ACCEPT ALL COOKIES'')
        \<or> str_includes pageContent (js ''Cookie Consent Manager'')
     then io_catch (\<lambda>w. acceptLoop 0 (frames w (document w)) w) (\<lambda>e. io_return ())
     else io_return ()))"

definition bodyTextScript :: "engine \<Rightarrow> node \<Rightarrow> (err + jstring) \<times> node" where
  "bodyTextScript e d =
     (let d' = remove_all [[Tag (js ''script'')], [Tag (js ''style'')], [Tag (js ''noscript'')]] d in
      (Inr (case body d' of None \<Rightarrow> [] | Some b \<Rightarrow> innerText e b), d'))"

definition fetchAuthenticated :: "jstring \<Rightarrow> bool \<Rightarrow> fetched io" where
  "fetchAuthenticated url headless w =
     (if \<not> hasAuthSession w
      then io_throw (Error (js ''No authenticated session found. Run auth setup first: bun run auth'')) w
      else io_bind (perform (LaunchPersistentContext headless)) (\<lambda>context.
             io_finally
               (io_bind firstPageOrNew (\<lambda>page.
                io_bind (perform AddInitScript) (\<lambda>u.
                io_bind (perform (Goto url)) (\<lambda>u.
                io_bind (perform (WaitForTimeout 2000)) (\<lambda>u.
                io_bind handleBarriers (\<lambda>u.
                io_bind (request Title (\<lambda>w. page_title w (document w))) (\<lambda>pageTitle.
                io_bind (evaluate BodyText bodyTextScript) (\<lambda>content.
                io_return \<lparr>title = pageTitle, content = content\<rparr>))))))))
               (perform Close)) w)"

definition fetchWithExtractor :: "jstring \<Rightarrow> jstring io \<Rightarrow> bool \<Rightarrow> fetched io" where
  "fetchWithExtractor url extractor headless w =
     (if \<not> hasAuthSession w
      then io_throw (Error (js ''No authenticated session found. Run auth setup first: bun run auth'')) w
      else io_bind (perform (LaunchPersistentContext headless)) (\<lambda>context.
             io_finally
               (io_bind firstPageOrNew (\<lambda>page.
                io_bind (perform AddInitScript) (\<lambda>u.
                io_bind (perform (Goto url)) (\<lambda>u.
                io_bind (perform (WaitForTimeout 5000)) (\<lambda>u.
                io_bind handleBarriers (\<lambda>u.
                io_bind (request Title (\<lambda>w. page_title w (document w))) (\<lambda>title.
                io_bind extractor (\<lambda>content.
                io_return \<lparr>title = title, content = content\<rparr>))))))))
               (perform Close)) w)"

section \<open>The tool handler (index.ts)\<close>

record tool_result =
  result_text :: jstring
  isError :: bool

text \<open>
  The case \<open>traverse_resource\<close>. \<open>url\<close> and \<open>raw\<close> are the arguments of the request,
  \<open>None\<close> when the request does not carry them. The \<open>catch\<close> around the fetch either
  returns the re-authentication instruction (\<open>Inl\<close>) or throws the error again. The texts
  of the handler open with a mark: U+274C and U+2705 are one code unit each, U+1F510 is
  the surrogate pair \<open>D83D DD10\<close>.
\<close>

definition traverse_resource :: "jstring option \<Rightarrow> bool option \<Rightarrow> tool_result io" where
  "traverse_resource url_arg raw_arg w =
     (case url_arg of
        None \<Rightarrow> io_return \<lparr>result_text = js ''Error: URL is required'', isError = True\<rparr> w
      | Some url \<Rightarrow>
          if url = [] then io_return \<lparr>result_text = js ''Error: URL is required'', isError = True\<rparr> w
          else if \<not> hasAuthSession w
          then io_return
                 \<lparr>result_text =
                    [0x274C]
                    @ js '' No authenticated session found.\<newline>\<newline>''
                    @ js ''To set up authentication, run:\<newline>```\<newline>''
                    @ js ''cd Projects/resource-traversal-mcp && bun run auth\<newline>```''
                    @ js ''\<newline>\<newline>This will open a browser for you to log in to Google.'',
                  isError = True\<rparr> w
          else
            (let service = detectService url
             in io_bind
                  (io_catch
                     (io_bind
                        (if raw_arg = Some True \<or> service = None
                         then fetchAuthenticated url True
                         else fetchWithExtractor url (getExtractor url) True)
                        (\<lambda>result. io_return (Inr result)))
                     (\<lambda>fetchError.
                        let errorMsg = message fetchError in
                        if str_includes errorMsg (js ''Session expired'')
                           \<or> str_includes errorMsg (js ''Sign in'')
                           \<or> str_includes errorMsg (js ''login'')
                        then io_return (Inl
                               \<lparr>result_text =
                                  [0xD83D, 0xDD10]
                                  @ js '' **Session Expired or Auth Required**\<newline>\<newline>''
                                  @ js ''The AI hit a login wall at: '' @ url
                                  @ js ''\<newline>\<newline>**Action Required:**\<newline>''
                                  @ js ''Run the Universal Auth Key to refresh your session:''
                                  @ js ''\<newline>```bash\<newline>''
                                  @ js ''cd Projects/resource-traversal-mcp && bun run auth ''
                                  @ url @ js ''\<newline>```'',
                                isError = True\<rparr>)
                        else io_throw fetchError))
                  (\<lambda>r. case r of
                     Inl response \<Rightarrow> io_return response
                   | Inr result \<Rightarrow>
                       (let serviceLabel =
                              (case service of None \<Rightarrow> [] | Some s \<Rightarrow> (js '' ('') @ s @ js '')'');
                            output = join [js ''# '' @ title result @ serviceLabel, [],
                                           js ''**Source:** '' @ url, [], js ''---'', [],
                                           content result] (js ''\<newline>'')
                        in io_return \<lparr>result_text = output, isError = False\<rparr>))) w)"

definition check_auth :: "tool_result io" where
  "check_auth w =
     (if hasAuthSession w
      then io_return
             \<lparr>result_text =
                [0x2705] @ js '' Authenticated session found.\<newline>\<newline>''
                @ js ''You can use `traverse_resource` to fetch content from authenticated URLs.'',
              isError = False\<rparr> w
      else io_return
             \<lparr>result_text =
                [0x274C] @ js '' No authenticated session found.\<newline>\<newline>''
                @ js ''To set up authentication, run:\<newline>```\<newline>''
                @ js ''cd Projects/resource-traversal-mcp && bun run auth\<newline>```'',
              isError = False\<rparr> w)"

text \<open>The handler of \<open>CallToolRequest\<close>, with its outer \<open>try\<close>/\<open>catch\<close>.\<close>

definition callTool :: "jstring \<Rightarrow> jstring option \<Rightarrow> bool option \<Rightarrow> tool_result io" where
  "callTool name url_arg raw_arg =
     io_catch
       (if name = js ''traverse_resource'' then traverse_resource url_arg raw_arg
        else if name = js ''check_auth'' then check_auth
        else io_return \<lparr>result_text = js ''Unknown tool: '' @ name, isError = True\<rparr>)
       (\<lambda>error. io_return \<lparr>result_text = [0x274C] @ js '' Error: '' @ message error, isError = True\<rparr>)"

section \<open>Observations on the trace\<close>

text \<open>How often the browser context has been closed.\<close>

definition closes :: "world \<Rightarrow> nat" where
  "closes w = count_list (trace w) Close"

text \<open>
  An asynchronous function is steady when, from every world, it only adds calls to the
  trace and none of them closes the context.
\<close>

definition steady :: "'a io \<Rightarrow> bool" where
  "steady m = (\<forall>w. \<exists>s. trace (snd (m w)) = trace w @ s \<and> Close \<notin> set s)"

text \<open>The calls that set \<open>scrollTop\<close>, and a bound on how many of them a function adds.\<close>

fun is_scroll :: "call \<Rightarrow> bool" where
  "is_scroll (Evaluate (SetScrollTop t)) = True"
| "is_scroll c = False"

definition scrolls_at_most :: "nat \<Rightarrow> 'a io \<Rightarrow> bool" where
  "scrolls_at_most n m =
     (\<forall>w. \<exists>s. trace (snd (m w)) = trace w @ s \<and> length (filter is_scroll s) \<le> n)"

text \<open>The document after the page has reacted to the calls \<open>cs\<close>.\<close>

definition settle :: "world \<Rightarrow> node \<Rightarrow> call list \<Rightarrow> node" where
  "settle w d cs = foldl (\<lambda>d c. react w c d) d cs"

text \<open>
  The calls of barrier handling when none of them fails, from the document \<open>d\<close> that the
  page shows after the wait that follows the navigation. The content is read; on an
  app-redirect page the link is looked up in the document as it then is and, when found,
  clicked; on a consent wall the frames of the document as it then is are searched in
  order and the first accept button found is clicked; every click is followed by a wait
  of 5000 milliseconds.
\<close>

fun acceptSteps :: "nat \<Rightarrow> bool list \<Rightarrow> call list" where
  "acceptSteps i [] = []"
| "acceptSteps i (found # rest) =
     QueryButton i # (if found then [ClickButton i, WaitForTimeout 5000]
                      else acceptSteps (Suc i) rest)"

definition redirectSteps :: "world \<Rightarrow> node \<Rightarrow> jstring \<Rightarrow> call list" where
  "redirectSteps w d pageContent =
     (if str_includes pageContent (js ''open this link in your browser'')
         \<or> str_includes pageContent (js ''use Slack in your browser'')
      then QueryLink # (if browserLink w d then [ClickLink, WaitForTimeout 5000] else [])
      else [])"

definition barrierSteps :: "world \<Rightarrow> node \<Rightarrow> call list" where
  "barrierSteps w d =
     (let pageContent = page_content w d;
          redirect = redirectSteps w (react w Content d) pageContent
      in Content # redirect
         @ (if str_includes pageContent (js ''ACCEPT ALL COOKIES'')
               \<or> str_includes pageContent (js ''Cookie Consent Manager'')
            then acceptSteps 0 (frames w (settle w d (Content # redirect)))
            else []))"

section \<open>Sample worlds\<close>

text \<open>
  An engine for the examples: the text of an element is the text below it, in document
  order.
\<close>

fun textContent :: "node \<Rightarrow> jstring" where
  "textContent (Text s) = s"
| "textContent (Element t a ks) = concat (map textContent ks)"

definition plainEngine :: engine where
  "plainEngine = \<lparr>innerText = textContent, innerHTML = textContent,
     href = (\<lambda>n. case map_of (attrs n) (js ''href'') of None \<Rightarrow> [] | Some v \<Rightarrow> v),
     typeError = js ''Cannot read properties of null''\<rparr>"

definition samplePage :: node where
  "samplePage = Element (js ''html'') []
     [Element (js ''head'') [] [Element (js ''title'') [] [Text (js ''Sample'')]],
      Element (js ''body'') []
        [Element (js ''nav'') [] [Text (js ''Menu'')],
         Element (js ''p'') [] [Text (js ''Hello'')],
         Element (js ''footer'') [] [Text (js ''Foot'')]]]"

text \<open>
  A session exists, no call fails, the page does not change by itself, its content
  shows a consent wall, and the second of its two frames holds the accept button.
\<close>

definition sampleWorld :: world where
  "sampleWorld = \<lparr>profile = True, fault = (\<lambda>k. None), react = (\<lambda>c d. d),
     eng = plainEngine, firstPage = True, document = samplePage,
     page_content = (\<lambda>d. (js ''<html><body>ACCEPT ALL COOKIES</body></html>'')),
     page_title = (\<lambda>d. (js ''Sample'')), browserLink = (\<lambda>d. False),
     frames = (\<lambda>d. [False, True]), trace = []\<rparr>"

text \<open>The same with a navigation that fails: the third call of a fetch is \<open>page.goto\<close>.\<close>

definition failingWorld :: "jstring \<Rightarrow> world" where
  "failingWorld msg = sampleWorld\<lparr>fault := (\<lambda>k. if k = 2 then Some msg else None)\<rparr>"

text \<open>The same without a profile directory.\<close>

definition noSessionWorld :: world where
  "noSessionWorld = sampleWorld\<lparr>profile := False\<rparr>"

text \<open>
  A page whose texts are not ASCII: a Gemini message of a no-break space and an
  ideographic space, a Grok message of three letters U+00E9, and a Google Docs editor
  with thirty letters U+00E9.
\<close>

definition unicodePage :: node where
  "unicodePage = Element (js ''html'') []
     [Element (js ''body'') []
        [Element (js ''div'') [(js ''data-message-id'', js ''1'')] [Text [0x00A0, 0x3000]],
         Element (js ''div'') [(js ''class'', js ''prose'')] [Text [0x00E9, 0x00E9, 0x00E9]],
         Element (js ''div'') [(js ''class'', js ''kix-appview-editor'')]
           [Text (replicate 30 0x00E9)]]]"

definition unicodeWorld :: world where
  "unicodeWorld = sampleWorld\<lparr>document := unicodePage\<rparr>"

text \<open>The same page in a browser that rejects the third call.\<close>

definition rejectingWorld :: "jstring \<Rightarrow> world" where
  "rejectingWorld msg = unicodeWorld\<lparr>fault := (\<lambda>k. if k = 2 then Some msg else None)\<rparr>"

text \<open>A document without a body.\<close>

definition bareWorld :: world where
  "bareWorld = sampleWorld\<lparr>document := Element (js ''html'') [] []\<rparr>"

text \<open>A Discord page with one message, in the sample world.\<close>

definition discordPage :: node where
  "discordPage = Element (js ''html'') []
     [Element (js ''body'') []
        [Element (js ''div'') [(js ''class'', js ''message-abc'')]
           [Element (js ''span'') [(js ''class'', js ''username-1'')] [Text (js ''ann'')],
            Element (js ''div'') [(js ''class'', js ''messageContent-x'')] [Text (js ''hi there'')]]]]"

definition discordWorld :: world where
  "discordWorld = sampleWorld\<lparr>document := discordPage\<rparr>"




section \<open>Code units of literals\<close>

lemma unat_of_char: "unat (of_char c :: 16 word) = of_char c"
proof -
  have "(of_char c :: 16 word) = of_nat (of_char c)"
    by (simp only: of_nat_of_char)
  moreover have "(of_char c :: nat) < 2 ^ 16"
    by (rule less_trans [OF nat_of_char_less_256]) simp
  ultimately show ?thesis
    by (simp add: unat_of_nat)
qed

lemma unit_of_char_eq_iff [simp]: "((of_char c :: 16 word) = of_char d) = (c = d)"
  by (metis unat_of_char of_char_eq_iff)

lemma js_eq_iff [simp]: "(js a = js b) = (a = b)"
  unfolding js_def by (rule inj_map_eq_map) (simp add: inj_on_def)

lemma js_Nil_iff [simp]: "(js s = []) = (s = [])" "([] = js s) = (s = [])"
  by (auto simp add: js_def)

lemma js_simps:
  "js [] = []" "js (c # s) = of_char c # js s"
  by (simp_all add: js_def)

lemma unit_of_char_eq_numeral [simp]:
  "((of_char c :: 16 word) = numeral n) = ((of_char c :: nat) = unat (numeral n :: 16 word))"
  "((numeral n :: 16 word) = of_char c) = ((of_char c :: nat) = unat (numeral n :: 16 word))"
  using unat_of_char [of c] by (metis word_unat_eq_iff)+

lemmas nat_of_char_Char = of_char_Char [where ?'a = nat]

declare of_char_Char [simp del]

declare nat_of_char_Char [simp]

section \<open>Properties of service detection\<close>

lemma detectLoop_find:
  "detectLoop t url = map_option fst (find (\<lambda>e. regex_test (snd e) url) t)"
  by (induction t) auto

lemma detectLoop_None:
  "detectLoop t url = None \<longleftrightarrow> (\<forall>e\<in>set t. \<not> regex_test (snd e) url)"
  by (induction t url rule: detectLoop.induct) simp_all

lemma detectLoop_Some:
  "detectLoop t url = Some s \<Longrightarrow> \<exists>p. (s, p) \<in> set t \<and> regex_test p url"
  by (induction t) (auto split: if_splits)

lemma patterns_no_prefix:
  "\<forall>e1\<in>set SERVICE_PATTERNS. \<forall>e2\<in>set SERVICE_PATTERNS.
     prefix (snd e1) (snd e2) \<longrightarrow> e1 = e2"
  by (simp add: SERVICE_PATTERNS_def js_simps)

lemma patterns_disjoint:
  assumes "e1 \<in> set SERVICE_PATTERNS" and "e2 \<in> set SERVICE_PATTERNS"
    and "regex_test (snd e1) url" and "regex_test (snd e2) url"
  shows "e1 = e2"
proof -
  from assms(3,4) have "prefix (snd e1) (snd e2) \<or> prefix (snd e2) (snd e1)"
    unfolding regex_test_def by (rule prefix_same_cases)
  with assms(1,2) patterns_no_prefix show ?thesis by blast
qed

lemma detectService_match:
  assumes "(s, p) \<in> set SERVICE_PATTERNS" and "regex_test p url"
  shows "detectService url = Some s"
proof -
  from assms have "detectService url \<noteq> None"
    unfolding detectService_def detectLoop_None by force
  then obtain s' where s': "detectService url = Some s'" by auto
  then obtain p' where "(s', p') \<in> set SERVICE_PATTERNS" and "regex_test p' url"
    unfolding detectService_def by (auto dest: detectLoop_Some)
  with assms have "(s', p') = (s, p)"
    using patterns_disjoint [of "(s', p')" "(s, p)" url] by simp
  with s' show ?thesis by simp
qed

lemma detectLoop_permuted:
  assumes "mset t = mset SERVICE_PATTERNS"
  shows "detectLoop t url = detectService url"
proof -
  from assms have st: "set t = set SERVICE_PATTERNS" by (rule mset_eq_setD)
  show ?thesis
  proof (cases "detectLoop t url")
    case None
    then have "\<forall>e\<in>set SERVICE_PATTERNS. \<not> regex_test (snd e) url"
      using st by (simp add: detectLoop_None)
    then have "detectService url = None"
      unfolding detectService_def by (simp add: detectLoop_None)
    with None show ?thesis by simp
  next
    case (Some s)
    then obtain p where "(s, p) \<in> set t" and "regex_test p url"
      by (auto dest: detectLoop_Some)
    with st have "detectService url = Some s"
      by (auto intro: detectService_match)
    with Some show ?thesis by simp
  qed
qed

text \<open>
  C4. A URL that matches a registered pattern is classified as that pattern's service,
  the loop returns the first entry of the table (in declaration order) whose pattern
  matches, and a URL that matches no pattern yields \<open>null\<close>.
\<close>

theorem detectService_spec:
  "detectService url =
     map_option fst (find (\<lambda>e. regex_test (snd e) url) SERVICE_PATTERNS)
   \<and> (\<forall>e\<in>set SERVICE_PATTERNS. regex_test (snd e) url \<longrightarrow> detectService url = Some (fst e))
   \<and> ((\<forall>e\<in>set SERVICE_PATTERNS. \<not> regex_test (snd e) url) \<longrightarrow> detectService url = None)"
proof (intro conjI ballI impI)
  show "detectService url =
     map_option fst (find (\<lambda>e. regex_test (snd e) url) SERVICE_PATTERNS)"
    unfolding detectService_def by (rule detectLoop_find)
next
  fix e assume "e \<in> set SERVICE_PATTERNS" and "regex_test (snd e) url"
  then show "detectService url = Some (fst e)"
    using detectService_match [of "fst e" "snd e" url] by simp
next
  assume "\<forall>e\<in>set SERVICE_PATTERNS. \<not> regex_test (snd e) url"
  then show "detectService url = None"
    unfolding detectService_def by (simp add: detectLoop_None)
qed

theorem detectService_spec_witness:
  "detectService (js ''https://gemini.google.com/app/abc123'') = Some (js ''gemini'')
   \<and> detectService (js ''https://example.com/page'') = None"
proof
  have m: "(js ''gemini'', js ''https://gemini.google.com/app/'') \<in> set SERVICE_PATTERNS"
    by (simp add: SERVICE_PATTERNS_def js_simps)
  have t: "regex_test (js ''https://gemini.google.com/app/'') (js ''https://gemini.google.com/app/abc123'')"
    by (simp add: regex_test_def js_simps)
  from detectService_spec [of "(js ''https://gemini.google.com/app/abc123'')"] m t
  show "detectService (js ''https://gemini.google.com/app/abc123'') = Some (js ''gemini'')"
    by fastforce
next
  have n: "\<forall>e\<in>set SERVICE_PATTERNS. \<not> regex_test (snd e) (js ''https://example.com/page'')"
    by (simp add: SERVICE_PATTERNS_def regex_test_def js_simps)
  from detectService_spec [of "(js ''https://example.com/page'')"] n
  show "detectService (js ''https://example.com/page'') = None"
    by blast
qed

text \<open>
  C10. No URL matches two entries of \<open>SERVICE_PATTERNS\<close>, so the loop of
  \<open>detectService\<close> gives the same result over every reordering of the table.
\<close>

theorem patterns_pairwise_disjoint:
  "(\<forall>e1\<in>set SERVICE_PATTERNS. \<forall>e2\<in>set SERVICE_PATTERNS.
      regex_test (snd e1) url \<and> regex_test (snd e2) url \<longrightarrow> e1 = e2)
   \<and> (\<forall>t. mset t = mset SERVICE_PATTERNS \<longrightarrow> detectLoop t url = detectService url)"
  using patterns_disjoint detectLoop_permuted by blast

theorem patterns_pairwise_disjoint_witness:
  "detectLoop (rev SERVICE_PATTERNS) (js ''https://grok.com/c/42'') = Some (js ''grok'')
   \<and> detectService (js ''https://grok.com/c/42'') = Some (js ''grok'')"
proof -
  have p: "mset (rev SERVICE_PATTERNS) = mset SERVICE_PATTERNS" by simp
  have d: "detectService (js ''https://grok.com/c/42'') = Some (js ''grok'')"
    by (simp add: detectService_def SERVICE_PATTERNS_def regex_test_def js_simps)
  from patterns_pairwise_disjoint [of "(js ''https://grok.com/c/42'')"] p
  have "detectLoop (rev SERVICE_PATTERNS) (js ''https://grok.com/c/42'')
        = detectService (js ''https://grok.com/c/42'')"
    by blast
  with d show ?thesis by simp
qed

section \<open>The browser context is closed once\<close>

lemma steadyI: "(\<And>w. \<exists>s. trace (snd (m w)) = trace w @ s \<and> Close \<notin> set s) \<Longrightarrow> steady m"
  by (simp add: steady_def)

lemma steadyD: "steady m \<Longrightarrow> \<exists>s. trace (snd (m w)) = trace w @ s \<and> Close \<notin> set s"
  by (simp add: steady_def)

lemma steady_return: "steady (io_return x)"
  by (simp add: steady_def io_return_def)

lemma steady_throw: "steady (io_throw e)"
  by (simp add: steady_def io_throw_def)

lemma steady_bind:
  assumes "steady m" and "\<And>x. steady (f x)"
  shows "steady (io_bind m f)"
proof (rule steadyI)
  fix w
  obtain r w' where m: "m w = (r, w')" by (cases "m w")
  from steadyD [OF assms(1), of w] m obtain s
    where s: "trace w' = trace w @ s" "Close \<notin> set s" by auto
  show "\<exists>s. trace (snd (io_bind m f w)) = trace w @ s \<and> Close \<notin> set s"
  proof (cases r)
    case (Inl e)
    with m s show ?thesis by (simp add: io_bind_def)
  next
    case (Inr x)
    from steadyD [OF assms(2), of x w'] obtain t
      where "trace (snd (f x w')) = trace w' @ t" "Close \<notin> set t" by auto
    with Inr m s show ?thesis by (simp add: io_bind_def)
  qed
qed

lemma steady_catch:
  assumes "steady m" and "\<And>e. steady (h e)"
  shows "steady (io_catch m h)"
proof (rule steadyI)
  fix w
  obtain r w' where m: "m w = (r, w')" by (cases "m w")
  from steadyD [OF assms(1), of w] m obtain s
    where s: "trace w' = trace w @ s" "Close \<notin> set s" by auto
  show "\<exists>s. trace (snd (io_catch m h w)) = trace w @ s \<and> Close \<notin> set s"
  proof (cases r)
    case (Inr x)
    with m s show ?thesis by (simp add: io_catch_def)
  next
    case (Inl e)
    from steadyD [OF assms(2), of e w'] obtain t
      where "trace (snd (h e w')) = trace w' @ t" "Close \<notin> set t" by auto
    with Inl m s show ?thesis by (simp add: io_catch_def)
  qed
qed

lemma steady_request: "c \<noteq> Close \<Longrightarrow> steady (request c v)"
  by (simp add: steady_def request_def split: option.splits)

lemma steady_perform: "c \<noteq> Close \<Longrightarrow> steady (perform c)"
  by (simp add: perform_def steady_request)

lemma steady_evaluate: "steady (evaluate s f)"
  by (simp add: steady_def evaluate_def split: option.splits prod.splits)

lemma steady_for_loop: "steady b \<Longrightarrow> steady (for_loop n b)"
  by (induction n) (simp_all add: steady_return steady_bind)

lemma steady_scrollToTop: "steady (scrollToTop a b)"
  by (simp add: steady_def scrollToTop_def steady_evaluate [unfolded steady_def])

lemma steady_waitForSelector: "steady (waitForSelector_caught sel t)"
  by (simp add: waitForSelector_caught_def steady_catch steady_perform steady_return)

lemma steady_if: "steady a \<Longrightarrow> steady b \<Longrightarrow> steady (if c then a else b)"
  by simp

lemmas steady_intros = steady_return steady_throw steady_bind steady_catch steady_request
  steady_perform steady_evaluate steady_for_loop steady_scrollToTop steady_waitForSelector
  steady_if

lemma steady_extractGeneric: "steady extractGeneric"
  by (simp add: extractGeneric_def steady_evaluate)

lemma steady_extractChatGPT: "steady extractChatGPT"
  unfolding extractChatGPT_def chatgptMessages_def
  by (intro steady_intros steady_extractGeneric | simp)+

lemma steady_extractGrok: "steady extractGrok"
  unfolding extractGrok_def grokMessages_def
  by (intro steady_intros | simp)+

lemma steady_extractSlack: "steady extractSlack"
  unfolding extractSlack_def slackMessages_def
  by (intro steady_intros steady_extractGeneric | simp)+

lemma steady_extractDiscord: "steady extractDiscord"
  unfolding extractDiscord_def discordMessages_def
  by (intro steady_intros steady_extractGeneric | simp)+

lemma steady_extractGeminiChat: "steady extractGeminiChat"
  unfolding extractGeminiChat_def geminiMessages_def
  by (intro steady_intros | simp)+

lemma steady_extractGoogleDoc: "steady extractGoogleDoc"
  unfolding extractGoogleDoc_def googleDocContent_def
  by (intro steady_intros steady_extractGeneric | simp)+

lemma steady_extractNotebookLM: "steady extractNotebookLM"
  unfolding extractNotebookLM_def notebookLMMessages_def
  by (intro steady_intros | simp)+

lemma steady_extractRaindrop: "steady extractRaindrop"
  unfolding extractRaindrop_def raindropBookmarks_def
  by (intro steady_intros steady_extractGeneric | simp)+

lemma steady_getExtractor: "steady (getExtractor url)"
  unfolding getExtractor_def Let_def
  by (intro steady_if steady_extractGeneric steady_extractChatGPT steady_extractGrok
      steady_extractSlack steady_extractDiscord steady_extractGeminiChat
      steady_extractGoogleDoc steady_extractNotebookLM steady_extractRaindrop)

lemma steady_firstPageOrNew: "steady firstPageOrNew"
  using steady_perform [of NewPage, unfolded steady_def]
  by (simp add: steady_def firstPageOrNew_def io_return_def)

lemma steady_acceptLoop: "steady (acceptLoop i bs)"
  by (induction bs arbitrary: i) (intro steady_intros | simp)+

lemma steady_acceptLoop_frames: "steady (\<lambda>w. acceptLoop 0 (frames w (document w)) w)"
  using steady_acceptLoop by (simp add: steady_def)

lemma steady_handleBarriers: "steady handleBarriers"
  unfolding handleBarriers_def
  by (intro steady_intros steady_acceptLoop_frames | simp)+

lemma finally_close:
  assumes "steady m"
  shows "closes (snd (io_finally m (perform Close) w)) = closes w + 1
       \<and> (\<exists>s. trace (snd (io_finally m (perform Close) w)) = trace w @ s @ [Close])"
proof -
  obtain r w' where m: "m w = (r, w')" by (cases "m w")
  from steadyD [OF assms, of w] m obtain s
    where s: "trace w' = trace w @ s" "Close \<notin> set s" by auto
  have t: "trace (snd (io_finally m (perform Close) w)) = trace w @ s @ [Close]"
    using m s by (simp add: io_finally_def perform_def request_def split: option.splits)
  with s show ?thesis by (simp add: closes_def)
qed

lemma fetchAuthenticated_body_steady:
  "steady (io_bind firstPageOrNew (\<lambda>page.
                io_bind (perform AddInitScript) (\<lambda>u.
                io_bind (perform (Goto url)) (\<lambda>u.
                io_bind (perform (WaitForTimeout 2000)) (\<lambda>u.
                io_bind handleBarriers (\<lambda>u.
                io_bind (request Title (\<lambda>w. page_title w (document w))) (\<lambda>pageTitle.
                io_bind (evaluate BodyText bodyTextScript) (\<lambda>content.
                io_return \<lparr>title = pageTitle, content = content\<rparr>))))))))"
  by (intro steady_intros steady_firstPageOrNew steady_handleBarriers | simp)+

lemma fetchWithExtractor_body_steady:
  "steady x \<Longrightarrow> steady (io_bind firstPageOrNew (\<lambda>page.
                io_bind (perform AddInitScript) (\<lambda>u.
                io_bind (perform (Goto url)) (\<lambda>u.
                io_bind (perform (WaitForTimeout 5000)) (\<lambda>u.
                io_bind handleBarriers (\<lambda>u.
                io_bind (request Title (\<lambda>w. page_title w (document w))) (\<lambda>title.
                io_bind x (\<lambda>content.
                io_return \<lparr>title = title, content = content\<rparr>))))))))"
  by (intro steady_intros steady_firstPageOrNew steady_handleBarriers | simp)+

lemma launch_ok:
  assumes "fault w (length (trace w)) = None"
  shows "\<exists>w1. perform (LaunchPersistentContext h) w = (Inr (), w1) \<and> closes w1 = closes w"
  using assms by (simp add: perform_def request_def closes_def)

text \<open>
  C2. A call of \<open>fetchAuthenticated\<close> or \<open>fetchWithExtractor\<close> that has launched the
  browser context closes it exactly once, as its last call, however the call ends: with
  a result, with an error of the navigation, of the barrier handling or of the
  extractor, or with any other error after the launch. The session exists and the next
  call of the trace, which is the launch, does not fail; every later call may fail. For
  \<open>fetchWithExtractor\<close> the extractor is any steady one; the extractors that
  \<open>getExtractor\<close> returns are steady.
\<close>

theorem context_closed_once:
  assumes "profile w" and "fault w (length (trace w)) = None"
  shows "closes (snd (fetchAuthenticated url h w)) = closes w + 1
       \<and> (\<exists>s. trace (snd (fetchAuthenticated url h w)) = s @ [Close])
       \<and> (steady x \<longrightarrow>
            closes (snd (fetchWithExtractor url x h w)) = closes w + 1
            \<and> (\<exists>s. trace (snd (fetchWithExtractor url x h w)) = s @ [Close]))
       \<and> closes (snd (fetchWithExtractor url (getExtractor u) h w)) = closes w + 1"
proof -
  from launch_ok [OF assms(2)] obtain w1
    where l: "perform (LaunchPersistentContext h) w = (Inr (), w1)" and c: "closes w1 = closes w"
    by blast
  have a: "fetchAuthenticated url h w = io_finally (io_bind firstPageOrNew (\<lambda>page.
                io_bind (perform AddInitScript) (\<lambda>u.
                io_bind (perform (Goto url)) (\<lambda>u.
                io_bind (perform (WaitForTimeout 2000)) (\<lambda>u.
                io_bind handleBarriers (\<lambda>u.
                io_bind (request Title (\<lambda>w. page_title w (document w))) (\<lambda>pageTitle.
                io_bind (evaluate BodyText bodyTextScript) (\<lambda>content.
                io_return \<lparr>title = pageTitle, content = content\<rparr>)))))))) (perform Close) w1"
    using assms(1) l by (simp add: fetchAuthenticated_def hasAuthSession_def io_bind_def)
  have b: "fetchWithExtractor url y h w = io_finally (io_bind firstPageOrNew (\<lambda>page.
                io_bind (perform AddInitScript) (\<lambda>u.
                io_bind (perform (Goto url)) (\<lambda>u.
                io_bind (perform (WaitForTimeout 5000)) (\<lambda>u.
                io_bind handleBarriers (\<lambda>u.
                io_bind (request Title (\<lambda>w. page_title w (document w))) (\<lambda>title.
                io_bind y (\<lambda>content.
                io_return \<lparr>title = title, content = content\<rparr>)))))))) (perform Close) w1" for y
    using assms(1) l by (simp add: fetchWithExtractor_def hasAuthSession_def io_bind_def)
  have 1: "closes (snd (fetchAuthenticated url h w)) = closes w + 1
       \<and> (\<exists>s. trace (snd (fetchAuthenticated url h w)) = s @ [Close])"
    unfolding a using finally_close [OF fetchAuthenticated_body_steady, of url w1] c
    by (metis append.assoc)
  have 2: "closes (snd (fetchWithExtractor url y h w)) = closes w + 1
       \<and> (\<exists>s. trace (snd (fetchWithExtractor url y h w)) = s @ [Close])" if "steady y" for y
    unfolding b using finally_close [OF fetchWithExtractor_body_steady [OF that], of url w1] c
    by (metis append.assoc)
  from 1 2 2 [OF steady_getExtractor] show ?thesis by blast
qed


theorem context_closed_once_witness:
  "closes (snd (fetchAuthenticated (js ''https://example.com/page'') True (failingWorld (js ''net::ERR_FAILED'')))) = 1
   \<and> closes (snd (fetchWithExtractor (js ''https://chatgpt.com/c/1'') extractChatGPT True sampleWorld)) = 1"
proof -
  have p: "profile (failingWorld (js ''net::ERR_FAILED''))" "profile sampleWorld"
    by (simp_all add: failingWorld_def sampleWorld_def)
  have f: "fault (failingWorld (js ''net::ERR_FAILED''))
             (length (trace (failingWorld (js ''net::ERR_FAILED'')))) = None"
    "fault sampleWorld (length (trace sampleWorld)) = None"
    by (simp_all add: failingWorld_def sampleWorld_def)
  have c: "closes (failingWorld (js ''net::ERR_FAILED'')) = 0" "closes sampleWorld = 0"
    by (simp_all add: closes_def failingWorld_def sampleWorld_def)
  from context_closed_once [OF p(1) f(1)] context_closed_once [OF p(2) f(2)]
    steady_extractChatGPT c
  show ?thesis by simp
qed


section \<open>Extractor dispatch\<close>

text \<open>
  C7. \<open>getExtractor\<close> always returns one of the nine extraction functions: for each of
  the eight service identifiers the extractor of that service, and \<open>extractGeneric\<close> for
  a URL whose service is unknown.
\<close>

theorem getExtractor_dispatch:
  "(detectService url = Some (js ''gemini'') \<longrightarrow> getExtractor url = extractGeminiChat)
   \<and> (detectService url = Some (js ''googleDocs'') \<longrightarrow> getExtractor url = extractGoogleDoc)
   \<and> (detectService url = Some (js ''notebookLM'') \<longrightarrow> getExtractor url = extractNotebookLM)
   \<and> (detectService url = Some (js ''chatgpt'') \<longrightarrow> getExtractor url = extractChatGPT)
   \<and> (detectService url = Some (js ''grok'') \<longrightarrow> getExtractor url = extractGrok)
   \<and> (detectService url = Some (js ''discord'') \<longrightarrow> getExtractor url = extractDiscord)
   \<and> (detectService url = Some (js ''slack'') \<longrightarrow> getExtractor url = extractSlack)
   \<and> (detectService url = Some (js ''raindrop'') \<longrightarrow> getExtractor url = extractRaindrop)
   \<and> (detectService url = None \<longrightarrow> getExtractor url = extractGeneric)
   \<and> getExtractor url \<in> {extractGeminiChat, extractGoogleDoc, extractNotebookLM,
         extractChatGPT, extractGrok, extractDiscord, extractSlack, extractRaindrop,
         extractGeneric}"
  unfolding getExtractor_def Let_def by simp

lemma detect_samples:
  "detectService (js ''https://gemini.google.com/app/abc123'') = Some (js ''gemini'')"
  "detectService (js ''https://docs.google.com/document/d/1'') = Some (js ''googleDocs'')"
  "detectService (js ''https://notebooklm.google.com/notebook/1'') = Some (js ''notebookLM'')"
  "detectService (js ''https://chatgpt.com/c/1'') = Some (js ''chatgpt'')"
  "detectService (js ''https://grok.com/c/1'') = Some (js ''grok'')"
  "detectService (js ''https://discord.com/channels/1/2'') = Some (js ''discord'')"
  "detectService (js ''https://app.slack.com/client/T1/C1'') = Some (js ''slack'')"
  "detectService (js ''https://app.raindrop.io/my/0'') = Some (js ''raindrop'')"
  "detectService (js ''https://example.com/page'') = None"
  by (simp_all add: detectService_def SERVICE_PATTERNS_def regex_test_def js_simps)

theorem getExtractor_dispatch_witness:
  "getExtractor (js ''https://gemini.google.com/app/abc123'') = extractGeminiChat
   \<and> getExtractor (js ''https://docs.google.com/document/d/1'') = extractGoogleDoc
   \<and> getExtractor (js ''https://notebooklm.google.com/notebook/1'') = extractNotebookLM
   \<and> getExtractor (js ''https://chatgpt.com/c/1'') = extractChatGPT
   \<and> getExtractor (js ''https://grok.com/c/1'') = extractGrok
   \<and> getExtractor (js ''https://discord.com/channels/1/2'') = extractDiscord
   \<and> getExtractor (js ''https://app.slack.com/client/T1/C1'') = extractSlack
   \<and> getExtractor (js ''https://app.raindrop.io/my/0'') = extractRaindrop
   \<and> getExtractor (js ''https://example.com/page'') = extractGeneric"
proof (intro conjI)
  show "getExtractor (js ''https://gemini.google.com/app/abc123'') = extractGeminiChat"
    using getExtractor_dispatch [of "(js ''https://gemini.google.com/app/abc123'')"]
    by (simp only: detect_samples simp_thms)
  show "getExtractor (js ''https://docs.google.com/document/d/1'') = extractGoogleDoc"
    using getExtractor_dispatch [of "(js ''https://docs.google.com/document/d/1'')"]
    by (simp only: detect_samples simp_thms)
  show "getExtractor (js ''https://notebooklm.google.com/notebook/1'') = extractNotebookLM"
    using getExtractor_dispatch [of "(js ''https://notebooklm.google.com/notebook/1'')"]
    by (simp only: detect_samples simp_thms)
  show "getExtractor (js ''https://chatgpt.com/c/1'') = extractChatGPT"
    using getExtractor_dispatch [of "(js ''https://chatgpt.com/c/1'')"]
    by (simp only: detect_samples simp_thms)
  show "getExtractor (js ''https://grok.com/c/1'') = extractGrok"
    using getExtractor_dispatch [of "(js ''https://grok.com/c/1'')"]
    by (simp only: detect_samples simp_thms)
  show "getExtractor (js ''https://discord.com/channels/1/2'') = extractDiscord"
    using getExtractor_dispatch [of "(js ''https://discord.com/channels/1/2'')"]
    by (simp only: detect_samples simp_thms)
  show "getExtractor (js ''https://app.slack.com/client/T1/C1'') = extractSlack"
    using getExtractor_dispatch [of "(js ''https://app.slack.com/client/T1/C1'')"]
    by (simp only: detect_samples simp_thms)
  show "getExtractor (js ''https://app.raindrop.io/my/0'') = extractRaindrop"
    using getExtractor_dispatch [of "(js ''https://app.raindrop.io/my/0'')"]
    by (simp only: detect_samples simp_thms)
  show "getExtractor (js ''https://example.com/page'') = extractGeneric"
    using getExtractor_dispatch [of "(js ''https://example.com/page'')"]
    by (simp only: detect_samples simp_thms)
qed

section \<open>The answers of the tool handler\<close>

lemmas io_defs = io_return_def io_bind_def io_catch_def io_throw_def io_finally_def
  request_def perform_def evaluate_def reading_def waitForSelector_caught_def
lemmas dom_defs = querySelectorAll_def querySelector_def el_querySelectorAll_def
  el_querySelector_def closest_def parentElement_def body_def matches_def
lemmas sample_defs = sampleWorld_def samplePage_def plainEngine_def failingWorld_def
  noSessionWorld_def discordWorld_def discordPage_def js_simps

lemma str_includes_mid: "str_includes (a @ u @ b) u"
  by (simp add: str_includes_def sublist_appendI)

lemma io_pair: "fst p = r \<Longrightarrow> p = (r, snd p)"
  by (auto simp: prod_eq_iff)

text \<open>
  C5 (amended). Without a profile directory, \<open>fetchAuthenticated\<close> and
  \<open>fetchWithExtractor\<close> throw the session-not-found error and leave the world as it is,
  so no browser context is launched; a \<open>traverse_resource\<close> request with a non-empty URL
  answers with the no-session remediation text, which is spelled out here; and no
  \<open>traverse_resource\<close> request at all issues a browser call in that state. In every
  world, with or without a session, a request whose URL is missing or empty is answered
  \<open>Error: URL is required\<close>, and the world stays as it is.
\<close>

theorem no_session_no_launch:
  "(\<not> hasAuthSession w \<longrightarrow>
      fetchAuthenticated url h w =
        (Inl (Error (js ''No authenticated session found. Run auth setup first: bun run auth'')),
         w)
      \<and> fetchWithExtractor url x h w =
        (Inl (Error (js ''No authenticated session found. Run auth setup first: bun run auth'')),
         w)
      \<and> (url \<noteq> [] \<longrightarrow>
           callTool (js ''traverse_resource'') (Some url) raw w =
             (Inr \<lparr>result_text =
                     [0x274C]
                     @ js '' No authenticated session found.\<newline>\<newline>''
                     @ js ''To set up authentication, run:\<newline>```\<newline>''
                     @ js ''cd Projects/resource-traversal-mcp && bun run auth\<newline>```''
                     @ js ''\<newline>\<newline>This will open a browser for you to log in to Google.'',
                   isError = True\<rparr>, w))
      \<and> snd (callTool (js ''traverse_resource'') url_arg raw w) = w)
   \<and> (url_arg = None \<or> url_arg = Some [] \<longrightarrow>
        callTool (js ''traverse_resource'') url_arg raw w =
          (Inr \<lparr>result_text = js ''Error: URL is required'', isError = True\<rparr>, w))"
  by (auto simp add: fetchAuthenticated_def fetchWithExtractor_def callTool_def
      traverse_resource_def io_throw_def io_catch_def io_return_def split: option.splits)

text \<open>
  C5 as stated fails for a request whose URL is empty: the guard \<open>if (!url)\<close> comes
  before the session check and answers \<open>Error: URL is required\<close>, not the remediation
  text, which opens with the mark U+274C.
\<close>

theorem no_session_empty_url_counterexample:
  "\<not> hasAuthSession noSessionWorld
   \<and> fst (callTool (js ''traverse_resource'') (Some []) None noSessionWorld)
       = Inr \<lparr>result_text = js ''Error: URL is required'', isError = True\<rparr>
   \<and> fst (callTool (js ''traverse_resource'') (Some []) None noSessionWorld)
       \<noteq> Inr \<lparr>result_text =
                 [0x274C]
                 @ js '' No authenticated session found.\<newline>\<newline>''
                 @ js ''To set up authentication, run:\<newline>```\<newline>''
                 @ js ''cd Projects/resource-traversal-mcp && bun run auth\<newline>```''
                 @ js ''\<newline>\<newline>This will open a browser for you to log in to Google.'',
               isError = True\<rparr>"
  by (simp add: callTool_def traverse_resource_def io_catch_def io_return_def
      hasAuthSession_def noSessionWorld_def sampleWorld_def js_simps)

theorem no_session_no_launch_witness:
  "fst (fetchAuthenticated (js ''https://example.com/page'') True noSessionWorld) =
      Inl (Error (js ''No authenticated session found. Run auth setup first: bun run auth''))
   \<and> fst (callTool (js ''traverse_resource'') (Some (js ''https://example.com/page'')) None
          noSessionWorld)
       = Inr \<lparr>result_text =
               [0x274C]
               @ js '' No authenticated session found.\<newline>\<newline>''
               @ js ''To set up authentication, run:\<newline>```\<newline>''
               @ js ''cd Projects/resource-traversal-mcp && bun run auth\<newline>```''
               @ js ''\<newline>\<newline>This will open a browser for you to log in to Google.'',
             isError = True\<rparr>
   \<and> trace (snd (callTool (js ''traverse_resource'') (Some (js ''https://example.com/page''))
        None noSessionWorld)) = []
   \<and> fst (callTool (js ''traverse_resource'') None None sampleWorld)
       = Inr \<lparr>result_text = js ''Error: URL is required'', isError = True\<rparr>"
proof -
  have h: "\<not> hasAuthSession noSessionWorld"
    by (simp add: hasAuthSession_def noSessionWorld_def sampleWorld_def)
  have t: "trace noSessionWorld = []"
    by (simp add: noSessionWorld_def sampleWorld_def)
  have n: "js ''https://example.com/page'' \<noteq> []"
    by simp
  from no_session_no_launch [of noSessionWorld "js ''https://example.com/page''" True _ None
      "Some (js ''https://example.com/page'')"] h t n
    no_session_no_launch [of sampleWorld _ _ _ None None]
  show ?thesis by (simp add: js_simps)
qed

text \<open>
  C6. When the fetch of a \<open>traverse_resource\<close> call throws an error whose message
  contains \<open>Session expired\<close>, \<open>Sign in\<close> or \<open>login\<close>, the answer is the
  re-authentication instruction, spelled out here, which names the URL of the request
  as the place of the login wall and as the argument of \<open>bun run auth\<close>; when the
  message contains none of them, the error is thrown again and the handler answers with
  the generic error message.
\<close>

theorem fetch_failure_classified:
  assumes "url \<noteq> []" and "hasAuthSession w"
    and "(if raw = Some True \<or> detectService url = None
          then fetchAuthenticated url True
          else fetchWithExtractor url (getExtractor url) True) w = (Inl e, w')"
  shows "(str_includes (message e) (js ''Session expired'')
            \<or> str_includes (message e) (js ''Sign in'')
            \<or> str_includes (message e) (js ''login'')
          \<longrightarrow> callTool (js ''traverse_resource'') (Some url) raw w =
                (Inr \<lparr>result_text =
                        [0xD83D, 0xDD10]
                        @ js '' **Session Expired or Auth Required**\<newline>\<newline>''
                        @ js ''The AI hit a login wall at: '' @ url
                        @ js ''\<newline>\<newline>**Action Required:**\<newline>''
                        @ js ''Run the Universal Auth Key to refresh your session:''
                        @ js ''\<newline>```bash\<newline>''
                        @ js ''cd Projects/resource-traversal-mcp && bun run auth ''
                        @ url @ js ''\<newline>```'',
                      isError = True\<rparr>, w')
              \<and> (case fst (callTool (js ''traverse_resource'') (Some url) raw w) of
                   Inl err \<Rightarrow> False
                 | Inr answer \<Rightarrow> str_includes (result_text answer) url))
       \<and> (\<not> (str_includes (message e) (js ''Session expired'')
            \<or> str_includes (message e) (js ''Sign in'')
            \<or> str_includes (message e) (js ''login''))
          \<longrightarrow> traverse_resource (Some url) raw w = (Inl e, w')
              \<and> callTool (js ''traverse_resource'') (Some url) raw w =
                (Inr \<lparr>result_text = [0x274C] @ js '' Error: '' @ message e,
                      isError = True\<rparr>, w'))"
proof -
  let ?text = "[0xD83D, 0xDD10]
                        @ js '' **Session Expired or Auth Required**\<newline>\<newline>''
                        @ js ''The AI hit a login wall at: '' @ url
                        @ js ''\<newline>\<newline>**Action Required:**\<newline>''
                        @ js ''Run the Universal Auth Key to refresh your session:''
                        @ js ''\<newline>```bash\<newline>''
                        @ js ''cd Projects/resource-traversal-mcp && bun run auth ''
                        @ url @ js ''\<newline>```''"
  have u: "str_includes ?text url"
    using str_includes_mid [of "[0xD83D, 0xDD10]
                        @ js '' **Session Expired or Auth Required**\<newline>\<newline>''
                        @ js ''The AI hit a login wall at: ''" url
        "js ''\<newline>\<newline>**Action Required:**\<newline>''
                        @ js ''Run the Universal Auth Key to refresh your session:''
                        @ js ''\<newline>```bash\<newline>''
                        @ js ''cd Projects/resource-traversal-mcp && bun run auth ''
                        @ url @ js ''\<newline>```''"]
    by simp
  have a: "callTool (js ''traverse_resource'') (Some url) raw w
             = (Inr \<lparr>result_text = ?text, isError = True\<rparr>, w')"
    if "str_includes (message e) (js ''Session expired'')
            \<or> str_includes (message e) (js ''Sign in'')
            \<or> str_includes (message e) (js ''login'')"
  proof (cases "raw = Some True \<or> detectService url = None")
    case True
    with assms that show ?thesis
      by (auto simp add: callTool_def traverse_resource_def Let_def io_bind_def io_catch_def
          io_return_def io_throw_def js_simps)
  next
    case False
    with assms that show ?thesis
      by (auto simp add: callTool_def traverse_resource_def Let_def io_bind_def io_catch_def
          io_return_def io_throw_def js_simps)
  qed
  have b: "traverse_resource (Some url) raw w = (Inl e, w')
              \<and> callTool (js ''traverse_resource'') (Some url) raw w =
                (Inr \<lparr>result_text = [0x274C] @ js '' Error: '' @ message e,
                      isError = True\<rparr>, w')"
    if "\<not> (str_includes (message e) (js ''Session expired'')
            \<or> str_includes (message e) (js ''Sign in'')
            \<or> str_includes (message e) (js ''login''))"
  proof (cases "raw = Some True \<or> detectService url = None")
    case True
    with assms that show ?thesis
      by (auto simp add: callTool_def traverse_resource_def Let_def io_bind_def io_catch_def
          io_return_def io_throw_def js_simps)
  next
    case False
    with assms that show ?thesis
      by (auto simp add: callTool_def traverse_resource_def Let_def io_bind_def io_catch_def
          io_return_def io_throw_def js_simps)
  qed
  from a b u show ?thesis
    by (auto)
qed

text \<open>
  C8. When the fetch of a \<open>traverse_resource\<close> call succeeds, the answer is the heading
  \<open># title (service)\<close>, an empty line, the line \<open>**Source:** url\<close>, an empty line, the
  separator \<open>---\<close>, an empty line and the extracted content; the heading carries no
  service label when the service of the URL is unknown.
\<close>

theorem success_format:
  assumes "url \<noteq> []" and "hasAuthSession w"
    and "(if raw = Some True \<or> detectService url = None
          then fetchAuthenticated url True
          else fetchWithExtractor url (getExtractor url) True) w = (Inr result, w')"
  shows "callTool (js ''traverse_resource'') (Some url) raw w =
           (Inr \<lparr>result_text =
                   js ''# '' @ title result
                     @ (case detectService url of None \<Rightarrow> []
                        | Some s \<Rightarrow> js '' ('' @ s @ js '')'')
                     @ js ''\<newline>\<newline>**Source:** '' @ url
                     @ js ''\<newline>\<newline>---\<newline>\<newline>'' @ content result,
                 isError = False\<rparr>, w')
       \<and> (detectService url = None \<longrightarrow>
            fst (callTool (js ''traverse_resource'') (Some url) raw w) =
              Inr \<lparr>result_text =
                     js ''# '' @ title result @ js ''\<newline>\<newline>**Source:** '' @ url
                       @ js ''\<newline>\<newline>---\<newline>\<newline>'' @ content result,
                   isError = False\<rparr>)"
proof -
  have main: "callTool (js ''traverse_resource'') (Some url) raw w =
           (Inr \<lparr>result_text =
                   js ''# '' @ title result
                     @ (case detectService url of None \<Rightarrow> []
                        | Some s \<Rightarrow> js '' ('' @ s @ js '')'')
                     @ js ''\<newline>\<newline>**Source:** '' @ url
                     @ js ''\<newline>\<newline>---\<newline>\<newline>'' @ content result,
                 isError = False\<rparr>, w')"
  proof (cases "raw = Some True \<or> detectService url = None")
    case True
    with assms show ?thesis
      by (auto simp add: callTool_def traverse_resource_def Let_def io_bind_def io_catch_def
          io_return_def io_throw_def js_simps)
  next
    case False
    with assms show ?thesis
      by (auto simp add: callTool_def traverse_resource_def Let_def io_bind_def io_catch_def
          io_return_def io_throw_def js_simps)
  qed
  show ?thesis unfolding main by simp
qed

lemma fetch_failing:
  "fst (fetchAuthenticated url h (failingWorld msg)) = Inl (Error msg)"
  by (simp add: fetchAuthenticated_def hasAuthSession_def firstPageOrNew_def io_defs sample_defs)

lemma fetch_sample:
  "fst (fetchAuthenticated url h sampleWorld)
     = Inr \<lparr>title = js ''Sample'', content = js ''MenuHelloFoot''\<rparr>"
  by (simp add: fetchAuthenticated_def hasAuthSession_def firstPageOrNew_def handleBarriers_def
      bodyTextScript_def str_includes_def sublist_code io_defs dom_defs sample_defs)

lemma fetch_gemini_sample:
  "fst (fetchWithExtractor url extractGeminiChat h sampleWorld)
     = Inr \<lparr>title = js ''Sample'', content = js ''MenuHelloFoot''\<rparr>"
  by (simp add: fetchWithExtractor_def hasAuthSession_def firstPageOrNew_def handleBarriers_def
      extractGeminiChat_def geminiMessages_def geminiCollect_def mainOrBodyScript_def
      str_includes_def sublist_code io_defs dom_defs sample_defs)

lemma session_samples:
  "hasAuthSession sampleWorld" "hasAuthSession (failingWorld msg)"
  by (simp_all add: hasAuthSession_def sample_defs)

theorem fetch_failure_classified_witness:
  "fst (callTool (js ''traverse_resource'') (Some (js ''https://example.com/page'')) None
          (failingWorld (js ''Sign in to continue'')))
     = Inr \<lparr>result_text =
             [0xD83D, 0xDD10]
             @ js '' **Session Expired or Auth Required**\<newline>\<newline>''
             @ js ''The AI hit a login wall at: https://example.com/page''
             @ js ''\<newline>\<newline>**Action Required:**\<newline>''
             @ js ''Run the Universal Auth Key to refresh your session:''
             @ js ''\<newline>```bash\<newline>''
             @ js ''cd Projects/resource-traversal-mcp && bun run auth https://example.com/page''
             @ js ''\<newline>```'',
           isError = True\<rparr>
   \<and> fst (callTool (js ''traverse_resource'') (Some (js ''https://example.com/page'')) None
          (failingWorld (js ''net::ERR_FAILED'')))
     = Inr \<lparr>result_text = [0x274C] @ js '' Error: net::ERR_FAILED'', isError = True\<rparr>"
proof -
  let ?u = "js ''https://example.com/page''"
  have n: "?u \<noteq> []" by simp
  have d: "detectService ?u = None"
    by (simp add: detectService_def SERVICE_PATTERNS_def regex_test_def js_simps)
  have f: "(if None = Some True \<or> detectService ?u = None
            then fetchAuthenticated ?u True
            else fetchWithExtractor ?u (getExtractor ?u) True) (failingWorld msg)
           = (Inl (Error msg), snd (fetchAuthenticated ?u True (failingWorld msg)))" for msg
    using fetch_failing [of ?u True msg] by (simp add: d prod_eq_iff)
  have a: "str_includes (message (Error (js ''Sign in to continue''))) (js ''Sign in'')"
    by (simp add: str_includes_def sublist_code js_simps)
  have b: "\<not> (str_includes (message (Error (js ''net::ERR_FAILED''))) (js ''Session expired'')
            \<or> str_includes (message (Error (js ''net::ERR_FAILED''))) (js ''Sign in'')
            \<or> str_includes (message (Error (js ''net::ERR_FAILED''))) (js ''login''))"
    by (simp add: str_includes_def sublist_code js_simps)
  from fetch_failure_classified [OF n session_samples(2) f, of "js ''Sign in to continue''"] a
    fetch_failure_classified [OF n session_samples(2) f, of "js ''net::ERR_FAILED''"] b
  show ?thesis by (simp add: js_simps)
qed

theorem success_format_witness:
  "fst (callTool (js ''traverse_resource'') (Some (js ''https://gemini.google.com/app/abc123''))
          None sampleWorld)
     = Inr \<lparr>result_text =
             js ''# Sample (gemini)\<newline>\<newline>''
             @ js ''**Source:** https://gemini.google.com/app/abc123\<newline>\<newline>''
             @ js ''---\<newline>\<newline>MenuHelloFoot'', isError = False\<rparr>
   \<and> fst (callTool (js ''traverse_resource'') (Some (js ''https://example.com/page'')) None
          sampleWorld)
     = Inr \<lparr>result_text =
             js ''# Sample\<newline>\<newline>''
             @ js ''**Source:** https://example.com/page\<newline>\<newline>''
             @ js ''---\<newline>\<newline>MenuHelloFoot'', isError = False\<rparr>"
proof
  let ?u = "js ''https://gemini.google.com/app/abc123''"
  have n: "?u \<noteq> []" by simp
  have d: "detectService ?u = Some (js ''gemini'')"
    by (simp add: detectService_def SERVICE_PATTERNS_def regex_test_def js_simps)
  have g: "getExtractor ?u = extractGeminiChat"
    using d by (simp add: getExtractor_def)
  have f: "(if None = Some True \<or> detectService ?u = None
            then fetchAuthenticated ?u True
            else fetchWithExtractor ?u (getExtractor ?u) True) sampleWorld
           = (Inr \<lparr>title = js ''Sample'', content = js ''MenuHelloFoot''\<rparr>,
              snd (fetchWithExtractor ?u extractGeminiChat True sampleWorld))"
    using fetch_gemini_sample [of ?u True] d by (simp add: g prod_eq_iff)
  from success_format [OF n session_samples(1) f] d
  show "fst (callTool (js ''traverse_resource'') (Some ?u) None sampleWorld)
     = Inr \<lparr>result_text =
             js ''# Sample (gemini)\<newline>\<newline>''
             @ js ''**Source:** https://gemini.google.com/app/abc123\<newline>\<newline>''
             @ js ''---\<newline>\<newline>MenuHelloFoot'', isError = False\<rparr>"
    by (simp add: js_simps)
next
  let ?u = "js ''https://example.com/page''"
  have n: "?u \<noteq> []" by simp
  have d: "detectService ?u = None"
    by (simp add: detectService_def SERVICE_PATTERNS_def regex_test_def js_simps)
  have f: "(if None = Some True \<or> detectService ?u = None
            then fetchAuthenticated ?u True
            else fetchWithExtractor ?u (getExtractor ?u) True) sampleWorld
           = (Inr \<lparr>title = js ''Sample'', content = js ''MenuHelloFoot''\<rparr>,
              snd (fetchAuthenticated ?u True sampleWorld))"
    using fetch_sample [of ?u True] by (simp add: d prod_eq_iff)
  from success_format [OF n session_samples(1) f] d
  show "fst (callTool (js ''traverse_resource'') (Some ?u) None sampleWorld)
     = Inr \<lparr>result_text =
             js ''# Sample\<newline>\<newline>''
             @ js ''**Source:** https://example.com/page\<newline>\<newline>''
             @ js ''---\<newline>\<newline>MenuHelloFoot'', isError = False\<rparr>"
    by (simp add: js_simps)
qed

section \<open>The fallback of the extractors\<close>

lemma for_loop_numeral:
  "for_loop (numeral k) b = io_bind b (\<lambda>u. for_loop (pred_numeral k) b)"
  by (simp add: numeral_eq_Suc)

lemmas extractor_defs = extractGeneric_def genericScript_def
  extractChatGPT_def chatgptMessages_def chatgptCollect_def
  extractGrok_def grokMessages_def grokCollect_def mainOrBodyScript_def
  extractSlack_def slackMessages_def slackCollect_def
  extractDiscord_def discordMessages_def discordCollect_def
  extractGeminiChat_def geminiMessages_def geminiCollect_def
  extractGoogleDoc_def googleDocContent_def googleDocCollect_def
  extractNotebookLM_def notebookLMMessages_def notebookLMCollect_def notebookLMFallbackScript_def
  extractRaindrop_def raindropBookmarks_def raindropCollect_def
  scrollToTop_def scroller_def for_loop_numeral

text \<open>
  C1 (amended). When the structured extraction yields no fragment, \<open>extractChatGPT\<close>,
  \<open>extractSlack\<close>, \<open>extractDiscord\<close> and \<open>extractRaindrop\<close> give what \<open>extractGeneric\<close>
  gives on the page as it then is, and so does \<open>extractGoogleDoc\<close> when the text it
  found is empty or, after trimming, shorter than 50 UTF-16 code units. When its script
  is not rejected, \<open>extractGeneric\<close> returns the \<open>innerText\<close> of the first \<open>main\<close>,
  \<open>article\<close> or \<open>[role="main"]\<close> element, or else of the body, of the document from which
  \<open>script\<close>, \<open>style\<close>, \<open>noscript\<close>, \<open>nav\<close>, \<open>header\<close> and \<open>footer\<close> are removed.
  \<open>extractGeminiChat\<close> and \<open>extractGrok\<close> instead return the \<open>innerText\<close> of the first
  \<open>main\<close> element, or else of the body, of the document with nothing removed, and
  \<open>extractNotebookLM\<close> returns the \<open>innerText\<close> of a copy of that element from which
  \<open>nav\<close>, \<open>header\<close>, \<open>button\<close> and \<open>[role="navigation"]\<close> are removed. Each of them throws
  a \<open>TypeError\<close> when there is no such element, and the error of the browser when the
  script is rejected.
\<close>

theorem fallback_on_zero_fragments:
  "(chatgptMessages w = (Inr [], w') \<longrightarrow> extractChatGPT w = extractGeneric w')
   \<and> (slackMessages w = (Inr [], w') \<longrightarrow> extractSlack w = extractGeneric w')
   \<and> (discordMessages w = (Inr [], w') \<longrightarrow> extractDiscord w = extractGeneric w')
   \<and> (raindropBookmarks w = (Inr [], w') \<longrightarrow> extractRaindrop w = extractGeneric w')
   \<and> (googleDocContent w = (Inr c, w') \<and> (c = [] \<or> length (trim c) < 50)
        \<longrightarrow> extractGoogleDoc w = extractGeneric w')
   \<and> (fault w' (length (trace w')) = None \<longrightarrow>
        fst (extractGeneric w') =
          (let d = remove_all [[Tag (js ''script'')], [Tag (js ''style'')],
                     [Tag (js ''noscript'')], [Tag (js ''nav'')], [Tag (js ''header'')],
                     [Tag (js ''footer'')]] (document w')
           in case (case querySelector [[Tag (js ''main'')], [Tag (js ''article'')],
                                        [AttrEq (js ''role'') (js ''main'')]] d of
                      Some l \<Rightarrow> Some (fst l) | None \<Rightarrow> body d) of
                None \<Rightarrow> Inl (Error (typeError (eng w')))
              | Some main \<Rightarrow> Inr (innerText (eng w') main))
        \<and> (geminiMessages w = (Inr [], w') \<longrightarrow>
             fst (extractGeminiChat w) =
               (case (case querySelector [[Tag (js ''main'')]] (document w') of
                        Some l \<Rightarrow> Some (fst l) | None \<Rightarrow> body (document w')) of
                  None \<Rightarrow> Inl (Error (typeError (eng w')))
                | Some main \<Rightarrow> Inr (innerText (eng w') main)))
        \<and> (grokMessages w = (Inr [], w') \<longrightarrow>
             fst (extractGrok w) =
               (case (case querySelector [[Tag (js ''main'')]] (document w') of
                        Some l \<Rightarrow> Some (fst l) | None \<Rightarrow> body (document w')) of
                  None \<Rightarrow> Inl (Error (typeError (eng w')))
                | Some main \<Rightarrow> Inr (innerText (eng w') main)))
        \<and> (notebookLMMessages w = (Inr [], w') \<longrightarrow>
             fst (extractNotebookLM w) =
               (case (case querySelector [[Tag (js ''main'')]] (document w') of
                        Some l \<Rightarrow> Some (fst l) | None \<Rightarrow> body (document w')) of
                  None \<Rightarrow> Inl (Error (typeError (eng w')))
                | Some main \<Rightarrow>
                    Inr (innerText (eng w')
                           (remove_all [[Tag (js ''nav'')], [Tag (js ''header'')],
                              [Tag (js ''button'')],
                              [AttrEq (js ''role'') (js ''navigation'')]] main)))))
   \<and> (fault w' (length (trace w')) = Some msg \<longrightarrow>
        fst (extractGeneric w') = Inl (Error msg)
        \<and> (geminiMessages w = (Inr [], w') \<longrightarrow> fst (extractGeminiChat w) = Inl (Error msg))
        \<and> (grokMessages w = (Inr [], w') \<longrightarrow> fst (extractGrok w) = Inl (Error msg))
        \<and> (notebookLMMessages w = (Inr [], w')
             \<longrightarrow> fst (extractNotebookLM w) = Inl (Error msg)))"
  by (simp add: extractChatGPT_def extractSlack_def extractDiscord_def extractRaindrop_def
      extractGoogleDoc_def extractGeminiChat_def extractGrok_def extractNotebookLM_def
      extractGeneric_def genericScript_def mainOrBodyScript_def notebookLMFallbackScript_def
      evaluate_def io_bind_def Let_def split: option.splits prod.splits)

text \<open>
  C1 as stated fails for \<open>extractGeminiChat\<close>, \<open>extractGrok\<close> and
  \<open>extractNotebookLM\<close>: on the sample page none of them finds a fragment, the fallback
  written inside the first two returns the text of the body with the navigation and the
  footer in it, that of the third keeps the footer, and \<open>extractGeneric\<close> removes both.
\<close>

theorem fallback_gemini_counterexample:
  "fst (geminiMessages sampleWorld) = Inr []
   \<and> fst (extractGeminiChat sampleWorld) = Inr (js ''MenuHelloFoot'')
   \<and> fst (extractGeneric (snd (geminiMessages sampleWorld))) = Inr (js ''Hello'')
   \<and> fst (grokMessages sampleWorld) = Inr []
   \<and> fst (extractGrok sampleWorld) = Inr (js ''MenuHelloFoot'')
   \<and> fst (extractGeneric (snd (grokMessages sampleWorld))) = Inr (js ''Hello'')
   \<and> fst (notebookLMMessages sampleWorld) = Inr []
   \<and> fst (extractNotebookLM sampleWorld) = Inr (js ''HelloFoot'')
   \<and> fst (extractGeneric (snd (notebookLMMessages sampleWorld))) = Inr (js ''Hello'')"
  by (simp add: extractor_defs io_defs dom_defs sample_defs)

lemmas unicode_defs = unicodeWorld_def unicodePage_def is_space_def trim_def tokens_def
  is_ascii_space_def sublist_code

lemma zero_chatgpt:
  "\<exists>t. chatgptMessages unicodeWorld = (Inr [], unicodeWorld\<lparr>trace := t\<rparr>)"
  by (simp add: extractor_defs io_defs dom_defs sample_defs unicode_defs)

lemma zero_grok:
  "\<exists>t. grokMessages unicodeWorld = (Inr [], unicodeWorld\<lparr>trace := t\<rparr>)"
  by (simp add: extractor_defs io_defs dom_defs sample_defs unicode_defs)

lemma zero_slack:
  "\<exists>t. slackMessages unicodeWorld = (Inr [], unicodeWorld\<lparr>trace := t\<rparr>)"
  by (simp add: extractor_defs io_defs dom_defs sample_defs unicode_defs)

lemma zero_discord:
  "\<exists>t. discordMessages unicodeWorld = (Inr [], unicodeWorld\<lparr>trace := t\<rparr>)"
  by (simp add: extractor_defs io_defs dom_defs sample_defs unicode_defs)

lemma zero_raindrop:
  "\<exists>t. raindropBookmarks unicodeWorld = (Inr [], unicodeWorld\<lparr>trace := t\<rparr>)"
  by (simp add: extractor_defs io_defs dom_defs sample_defs unicode_defs)

lemma zero_gemini:
  "\<exists>t. geminiMessages unicodeWorld = (Inr [], unicodeWorld\<lparr>trace := t\<rparr>)"
  by (simp add: extractor_defs io_defs dom_defs sample_defs unicode_defs)

lemma zero_notebookLM:
  "\<exists>t. notebookLMMessages unicodeWorld = (Inr [], unicodeWorld\<lparr>trace := t\<rparr>)"
  by (simp add: extractor_defs io_defs dom_defs sample_defs unicode_defs)

lemma short_doc:
  "\<exists>t. googleDocContent unicodeWorld
        = (Inr (replicate 30 0x00E9), unicodeWorld\<lparr>trace := t\<rparr>)"
  by (simp add: extractor_defs io_defs dom_defs sample_defs unicode_defs)

lemma short_doc_trimmed: "length (trim (replicate 30 (0x00E9 :: 16 word))) < 50"
proof -
  have "dropWhile is_space (replicate n (0x00E9 :: 16 word)) = replicate n 0x00E9" for n
    by (cases n) (simp_all add: is_space_def)
  then show ?thesis
    by (simp add: trim_def)
qed

lemma zero_rejecting:
  "\<exists>t. geminiMessages (rejectingWorld msg) = (Inr [], (rejectingWorld msg)\<lparr>trace := t\<rparr>)
      \<and> length t = 2"
  by (simp add: extractor_defs io_defs dom_defs sample_defs unicode_defs rejectingWorld_def)

lemma zero_bare:
  "\<exists>t. geminiMessages bareWorld = (Inr [], bareWorld\<lparr>trace := t\<rparr>)"
  by (simp add: extractor_defs io_defs dom_defs sample_defs bareWorld_def)

lemma unicode_fields:
  "fault (unicodeWorld\<lparr>trace := t\<rparr>) k = None"
  "document (unicodeWorld\<lparr>trace := t\<rparr>) = unicodePage"
  "eng (unicodeWorld\<lparr>trace := t\<rparr>) = plainEngine"
  by (simp_all add: unicodeWorld_def sampleWorld_def)

lemma unicode_text:
  "(case (case querySelector [[Tag (js ''main'')]] unicodePage of
            Some l \<Rightarrow> Some (fst l) | None \<Rightarrow> body unicodePage) of
      None \<Rightarrow> Inl (Error (typeError plainEngine))
    | Some main \<Rightarrow> Inr (innerText plainEngine main))
   = Inr ([0x00A0, 0x3000] @ [0x00E9, 0x00E9, 0x00E9] @ replicate 30 0x00E9)"
  "(case (case querySelector [[Tag (js ''main'')]] unicodePage of
            Some l \<Rightarrow> Some (fst l) | None \<Rightarrow> body unicodePage) of
      None \<Rightarrow> Inl (Error (typeError plainEngine))
    | Some main \<Rightarrow>
        Inr (innerText plainEngine
               (remove_all [[Tag (js ''nav'')], [Tag (js ''header'')], [Tag (js ''button'')],
                  [AttrEq (js ''role'') (js ''navigation'')]] main)))
   = Inr ([0x00A0, 0x3000] @ [0x00E9, 0x00E9, 0x00E9] @ replicate 30 0x00E9)"
  "(let d = remove_all [[Tag (js ''script'')], [Tag (js ''style'')],
              [Tag (js ''noscript'')], [Tag (js ''nav'')], [Tag (js ''header'')],
              [Tag (js ''footer'')]] unicodePage
    in case (case querySelector [[Tag (js ''main'')], [Tag (js ''article'')],
                                 [AttrEq (js ''role'') (js ''main'')]] d of
               Some l \<Rightarrow> Some (fst l) | None \<Rightarrow> body d) of
         None \<Rightarrow> Inl (Error (typeError plainEngine))
       | Some main \<Rightarrow> Inr (innerText plainEngine main))
   = Inr ([0x00A0, 0x3000] @ [0x00E9, 0x00E9, 0x00E9] @ replicate 30 0x00E9)"
  by (simp_all add: dom_defs sample_defs unicode_defs)

theorem fallback_on_zero_fragments_witness:
  "(\<exists>w'. chatgptMessages unicodeWorld = (Inr [], w')
          \<and> extractChatGPT unicodeWorld = extractGeneric w')
   \<and> (\<exists>w'. slackMessages unicodeWorld = (Inr [], w')
          \<and> extractSlack unicodeWorld = extractGeneric w')
   \<and> (\<exists>w'. discordMessages unicodeWorld = (Inr [], w')
          \<and> extractDiscord unicodeWorld = extractGeneric w')
   \<and> (\<exists>w'. raindropBookmarks unicodeWorld = (Inr [], w')
          \<and> extractRaindrop unicodeWorld = extractGeneric w')
   \<and> (\<exists>w'. googleDocContent unicodeWorld = (Inr (replicate 30 0x00E9), w')
          \<and> extractGoogleDoc unicodeWorld = extractGeneric w'
          \<and> fst (extractGeneric w')
              = Inr ([0x00A0, 0x3000] @ [0x00E9, 0x00E9, 0x00E9] @ replicate 30 0x00E9))
   \<and> fst (extractGeminiChat unicodeWorld)
       = Inr ([0x00A0, 0x3000] @ [0x00E9, 0x00E9, 0x00E9] @ replicate 30 0x00E9)
   \<and> fst (extractGrok unicodeWorld)
       = Inr ([0x00A0, 0x3000] @ [0x00E9, 0x00E9, 0x00E9] @ replicate 30 0x00E9)
   \<and> fst (extractNotebookLM unicodeWorld)
       = Inr ([0x00A0, 0x3000] @ [0x00E9, 0x00E9, 0x00E9] @ replicate 30 0x00E9)
   \<and> fst (extractGeminiChat bareWorld) = Inl (Error (js ''Cannot read properties of null''))
   \<and> fst (extractGeminiChat (rejectingWorld (js ''Execution context was destroyed'')))
       = Inl (Error (js ''Execution context was destroyed''))"
proof (intro conjI)
  obtain t where t: "chatgptMessages unicodeWorld = (Inr [], unicodeWorld\<lparr>trace := t\<rparr>)"
    using zero_chatgpt by blast
  show "\<exists>w'. chatgptMessages unicodeWorld = (Inr [], w')
          \<and> extractChatGPT unicodeWorld = extractGeneric w'"
    using fallback_on_zero_fragments [of unicodeWorld "unicodeWorld\<lparr>trace := t\<rparr>"] t
    by blast
next
  obtain t where t: "slackMessages unicodeWorld = (Inr [], unicodeWorld\<lparr>trace := t\<rparr>)"
    using zero_slack by blast
  show "\<exists>w'. slackMessages unicodeWorld = (Inr [], w')
          \<and> extractSlack unicodeWorld = extractGeneric w'"
    using fallback_on_zero_fragments [of unicodeWorld "unicodeWorld\<lparr>trace := t\<rparr>"] t
    by blast
next
  obtain t where t: "discordMessages unicodeWorld = (Inr [], unicodeWorld\<lparr>trace := t\<rparr>)"
    using zero_discord by blast
  show "\<exists>w'. discordMessages unicodeWorld = (Inr [], w')
          \<and> extractDiscord unicodeWorld = extractGeneric w'"
    using fallback_on_zero_fragments [of unicodeWorld "unicodeWorld\<lparr>trace := t\<rparr>"] t
    by blast
next
  obtain t where t: "raindropBookmarks unicodeWorld = (Inr [], unicodeWorld\<lparr>trace := t\<rparr>)"
    using zero_raindrop by blast
  show "\<exists>w'. raindropBookmarks unicodeWorld = (Inr [], w')
          \<and> extractRaindrop unicodeWorld = extractGeneric w'"
    using fallback_on_zero_fragments [of unicodeWorld "unicodeWorld\<lparr>trace := t\<rparr>"] t
    by blast
next
  obtain t where t: "googleDocContent unicodeWorld
      = (Inr (replicate 30 0x00E9), unicodeWorld\<lparr>trace := t\<rparr>)"
    using short_doc by blast
  have "extractGoogleDoc unicodeWorld = extractGeneric (unicodeWorld\<lparr>trace := t\<rparr>)"
    using fallback_on_zero_fragments [of unicodeWorld "unicodeWorld\<lparr>trace := t\<rparr>"
        "replicate 30 0x00E9"] t short_doc_trimmed
    by blast
  moreover have "fst (extractGeneric (unicodeWorld\<lparr>trace := t\<rparr>))
      = Inr ([0x00A0, 0x3000] @ [0x00E9, 0x00E9, 0x00E9] @ replicate 30 0x00E9)"
    using fallback_on_zero_fragments [of unicodeWorld "unicodeWorld\<lparr>trace := t\<rparr>"]
    by (simp only: unicode_fields unicode_text simp_thms)
  ultimately show "\<exists>w'. googleDocContent unicodeWorld = (Inr (replicate 30 0x00E9), w')
          \<and> extractGoogleDoc unicodeWorld = extractGeneric w'
          \<and> fst (extractGeneric w')
              = Inr ([0x00A0, 0x3000] @ [0x00E9, 0x00E9, 0x00E9] @ replicate 30 0x00E9)"
    using t by blast
next
  obtain t where t: "geminiMessages unicodeWorld = (Inr [], unicodeWorld\<lparr>trace := t\<rparr>)"
    using zero_gemini by blast
  show "fst (extractGeminiChat unicodeWorld)
       = Inr ([0x00A0, 0x3000] @ [0x00E9, 0x00E9, 0x00E9] @ replicate 30 0x00E9)"
    using fallback_on_zero_fragments [of unicodeWorld "unicodeWorld\<lparr>trace := t\<rparr>"] t
    by (simp only: unicode_fields unicode_text simp_thms)
next
  obtain t where t: "grokMessages unicodeWorld = (Inr [], unicodeWorld\<lparr>trace := t\<rparr>)"
    using zero_grok by blast
  show "fst (extractGrok unicodeWorld)
       = Inr ([0x00A0, 0x3000] @ [0x00E9, 0x00E9, 0x00E9] @ replicate 30 0x00E9)"
    using fallback_on_zero_fragments [of unicodeWorld "unicodeWorld\<lparr>trace := t\<rparr>"] t
    by (simp only: unicode_fields unicode_text simp_thms)
next
  obtain t where t: "notebookLMMessages unicodeWorld = (Inr [], unicodeWorld\<lparr>trace := t\<rparr>)"
    using zero_notebookLM by blast
  show "fst (extractNotebookLM unicodeWorld)
       = Inr ([0x00A0, 0x3000] @ [0x00E9, 0x00E9, 0x00E9] @ replicate 30 0x00E9)"
    using fallback_on_zero_fragments [of unicodeWorld "unicodeWorld\<lparr>trace := t\<rparr>"] t
    by (simp only: unicode_fields unicode_text simp_thms)
next
  obtain t where t: "geminiMessages bareWorld = (Inr [], bareWorld\<lparr>trace := t\<rparr>)"
    using zero_bare by blast
  show "fst (extractGeminiChat bareWorld) = Inl (Error (js ''Cannot read properties of null''))"
    using fallback_on_zero_fragments [of bareWorld "bareWorld\<lparr>trace := t\<rparr>"] t
    by (simp add: bareWorld_def dom_defs sample_defs)
next
  let ?w = "rejectingWorld (js ''Execution context was destroyed'')"
  obtain t where t: "geminiMessages ?w = (Inr [], ?w\<lparr>trace := t\<rparr>)" "length t = 2"
    using zero_rejecting by blast
  show "fst (extractGeminiChat ?w) = Inl (Error (js ''Execution context was destroyed''))"
    using fallback_on_zero_fragments [of ?w "?w\<lparr>trace := t\<rparr>" _
        "js ''Execution context was destroyed''"] t
    by (simp add: rejectingWorld_def)
qed

section \<open>The history walk\<close>

lemma scrollsI:
  "(\<And>w. \<exists>s. trace (snd (m w)) = trace w @ s \<and> length (filter is_scroll s) \<le> n)
   \<Longrightarrow> scrolls_at_most n m"
  by (simp add: scrolls_at_most_def)

lemma scrollsD:
  "scrolls_at_most n m \<Longrightarrow> \<exists>s. trace (snd (m w)) = trace w @ s \<and> length (filter is_scroll s) \<le> n"
  by (simp add: scrolls_at_most_def)

lemma scrolls_return: "scrolls_at_most 0 (io_return x)"
  by (simp add: scrolls_at_most_def io_return_def)

lemma scrolls_bind:
  assumes "scrolls_at_most a m" and "\<And>x. scrolls_at_most b (f x)"
  shows "scrolls_at_most (a + b) (io_bind m f)"
proof (rule scrollsI)
  fix w
  obtain r w' where m: "m w = (r, w')" by (cases "m w")
  from scrollsD [OF assms(1), of w] m obtain s
    where s: "trace w' = trace w @ s" "length (filter is_scroll s) \<le> a" by auto
  show "\<exists>s. trace (snd (io_bind m f w)) = trace w @ s \<and> length (filter is_scroll s) \<le> a + b"
  proof (cases r)
    case (Inl e)
    with m s show ?thesis by (simp add: io_bind_def)
  next
    case (Inr x)
    from scrollsD [OF assms(2), of x w'] obtain t
      where "trace (snd (f x w')) = trace w' @ t" "length (filter is_scroll t) \<le> b" by auto
    with Inr m s show ?thesis by (simp add: io_bind_def)
  qed
qed

lemma scrolls_catch:
  assumes "scrolls_at_most a m" and "\<And>e. scrolls_at_most b (h e)"
  shows "scrolls_at_most (a + b) (io_catch m h)"
proof (rule scrollsI)
  fix w
  obtain r w' where m: "m w = (r, w')" by (cases "m w")
  from scrollsD [OF assms(1), of w] m obtain s
    where s: "trace w' = trace w @ s" "length (filter is_scroll s) \<le> a" by auto
  show "\<exists>s. trace (snd (io_catch m h w)) = trace w @ s \<and> length (filter is_scroll s) \<le> a + b"
  proof (cases r)
    case (Inr x)
    with m s show ?thesis by (simp add: io_catch_def)
  next
    case (Inl e)
    from scrollsD [OF assms(2), of e w'] obtain t
      where "trace (snd (h e w')) = trace w' @ t" "length (filter is_scroll t) \<le> b" by auto
    with Inl m s show ?thesis by (simp add: io_catch_def)
  qed
qed

lemma scrolls_perform: "\<not> is_scroll c \<Longrightarrow> scrolls_at_most 0 (perform c)"
  by (simp add: scrolls_at_most_def perform_def request_def split: option.splits)

lemma scrolls_evaluate: "\<not> is_scroll (Evaluate s) \<Longrightarrow> scrolls_at_most 0 (evaluate s f)"
  by (simp add: scrolls_at_most_def evaluate_def split: option.splits prod.splits)

lemma scrolls_scrollToTop: "scrolls_at_most 1 (scrollToTop a b)"
  by (simp add: scrolls_at_most_def scrollToTop_def evaluate_def split: option.splits prod.splits)

lemma scrolls_for_loop: "scrolls_at_most a b \<Longrightarrow> scrolls_at_most (n * a) (for_loop n b)"
proof (induction n)
  case 0
  then show ?case by (simp add: scrolls_return)
next
  case (Suc n)
  from scrolls_bind [OF Suc.prems, of "n * a" "\<lambda>u. for_loop n b"] Suc.IH [OF Suc.prems]
  show ?case by simp
qed

lemma scrolls_waitForSelector: "scrolls_at_most 0 (waitForSelector_caught sel t)"
  using scrolls_catch [OF scrolls_perform, of "WaitForSelector sel t" 0 "\<lambda>e. io_return ()"]
  by (simp add: waitForSelector_caught_def scrolls_return)

lemma scrolls_fallback:
  assumes "scrolls_at_most n m" and "scrolls_at_most 0 g"
  shows "scrolls_at_most n
           (io_bind m (\<lambda>messages. if length messages = 0 then g else io_return (j messages)))"
  using scrolls_bind [OF assms(1), of 0
      "\<lambda>messages. if length messages = 0 then g else io_return (j messages)"] assms(2)
  by (simp add: scrolls_return)

lemma scrolls_extractGeneric: "scrolls_at_most 0 extractGeneric"
  by (simp add: extractGeneric_def scrolls_evaluate)

lemma scroll_walk:
  "scrolls_at_most n
     (for_loop n (io_bind (scrollToTop a b) (\<lambda>u. perform (WaitForTimeout d))))"
  using scrolls_for_loop [OF scrolls_bind [OF scrolls_scrollToTop, of 0
      "\<lambda>u. perform (WaitForTimeout d)"], of n a b]
  by (simp add: scrolls_perform)

lemma scrolls_then_collect:
  assumes "scrolls_at_most a m" and "scrolls_at_most b l"
  shows "scrolls_at_most (a + b)
           (io_bind m (\<lambda>u. io_bind l (\<lambda>u. evaluate Fragments f)))"
proof -
  have "scrolls_at_most (b + 0) (io_bind l (\<lambda>u. evaluate Fragments f))"
    by (rule scrolls_bind [OF assms(2)]) (simp add: scrolls_evaluate)
  then show ?thesis
    using scrolls_bind [OF assms(1), of b "\<lambda>u. io_bind l (\<lambda>u. evaluate Fragments f)"] by simp
qed

lemma scrolls_chatgptMessages: "scrolls_at_most 10 chatgptMessages"
  unfolding chatgptMessages_def
  using scrolls_then_collect [OF scrolls_waitForSelector scroll_walk [of 10]] by simp

lemma scrolls_grokMessages: "scrolls_at_most 15 grokMessages"
  unfolding grokMessages_def
  using scrolls_then_collect [OF scrolls_perform scroll_walk [of 15], of "WaitForTimeout 10000"]
  by simp

lemma scrolls_slackMessages: "scrolls_at_most 15 slackMessages"
  unfolding slackMessages_def
  using scrolls_then_collect [OF scrolls_waitForSelector scroll_walk [of 15]] by simp

lemma scrolls_wait_collect:
  "scrolls_at_most 0 (io_bind (waitForSelector_caught sel t) (\<lambda>u. evaluate Fragments f))"
  using scrolls_bind [OF scrolls_waitForSelector, of 0 "\<lambda>u. evaluate Fragments f"]
  by (simp add: scrolls_evaluate)

lemma scrolls_wait_wait_collect:
  "scrolls_at_most 0 (io_bind (waitForSelector_caught sel t) (\<lambda>u.
      io_bind (perform (WaitForTimeout d)) (\<lambda>u. evaluate Fragments f)))"
  using scrolls_then_collect [OF scrolls_waitForSelector scrolls_perform, of "WaitForTimeout d"]
  by simp

lemma scrolls_extractors:
  "scrolls_at_most 10 extractChatGPT"
  "scrolls_at_most 15 extractGrok"
  "scrolls_at_most 15 extractSlack"
  "scrolls_at_most 0 extractDiscord"
  "scrolls_at_most 0 extractGeminiChat"
  "scrolls_at_most 0 extractNotebookLM"
  "scrolls_at_most 0 extractRaindrop"
  unfolding extractChatGPT_def extractGrok_def extractSlack_def extractDiscord_def
    extractGeminiChat_def extractNotebookLM_def extractRaindrop_def
    discordMessages_def geminiMessages_def notebookLMMessages_def raindropBookmarks_def
  by (intro scrolls_fallback scrolls_chatgptMessages scrolls_grokMessages scrolls_slackMessages
      scrolls_extractGeneric scrolls_evaluate scrolls_wait_collect scrolls_wait_wait_collect
      | simp)+

lemma scrolls_extractGoogleDoc: "scrolls_at_most 0 extractGoogleDoc"
  unfolding extractGoogleDoc_def googleDocContent_def
  using scrolls_bind [OF scrolls_wait_wait_collect, of 0
      "\<lambda>content. if content = [] \<or> length (trim content) < 50 then extractGeneric
                  else io_return content"]
  by (simp add: scrolls_extractGeneric scrolls_return)


lemma perform_nofault:
  assumes "\<forall>k. fault w k = None"
  shows "\<exists>w'. perform c w = (Inr (), w') \<and> trace w' = trace w @ [c] \<and> fault w' = fault w"
  using assms by (simp add: perform_def request_def)

lemma waitForSelector_nofault:
  assumes "\<forall>k. fault w k = None"
  shows "\<exists>w'. waitForSelector_caught sel t w = (Inr (), w')
           \<and> trace w' = trace w @ [WaitForSelector sel t] \<and> fault w' = fault w"
  using assms by (simp add: waitForSelector_caught_def io_catch_def perform_def request_def)

lemma scrollToTop_nofault:
  assumes "\<forall>k. fault w k = None"
  shows "\<exists>t w'. scrollToTop a b w = (Inr (), w')
           \<and> trace w' = trace w @ [Evaluate (SetScrollTop t)] \<and> fault w' = fault w"
  using assms by (simp add: scrollToTop_def evaluate_def reading_def)

lemma collect_nofault:
  assumes "\<forall>k. fault w k = None"
  shows "trace (snd (evaluate Fragments (reading g) w)) = trace w @ [Evaluate Fragments]"
  using assms by (simp add: evaluate_def reading_def)

lemma walk_nofault:
  assumes "\<forall>k. fault w k = None"
  shows "\<exists>ts w'. length ts = n
           \<and> for_loop n (io_bind (scrollToTop a b) (\<lambda>u. perform (WaitForTimeout d))) w = (Inr (), w')
           \<and> trace w' = trace w @ concat (map (\<lambda>t. [Evaluate (SetScrollTop t), WaitForTimeout d]) ts)
           \<and> fault w' = fault w"
  using assms
proof (induction n arbitrary: w)
  case 0
  show ?case by (simp add: io_return_def)
next
  case (Suc n)
  from scrollToTop_nofault [OF Suc.prems, of a b] obtain t w1
    where 1: "scrollToTop a b w = (Inr (), w1)"
      "trace w1 = trace w @ [Evaluate (SetScrollTop t)]" "fault w1 = fault w" by blast
  with Suc.prems have n1: "\<forall>k. fault w1 k = None" by simp
  from perform_nofault [OF n1, of "WaitForTimeout d"] obtain w2
    where 2: "perform (WaitForTimeout d) w1 = (Inr (), w2)"
      "trace w2 = trace w1 @ [WaitForTimeout d]" "fault w2 = fault w1" by blast
  with n1 have n2: "\<forall>k. fault w2 k = None" by simp
  from Suc.IH [OF n2] obtain ts w'
    where 3: "length ts = n"
      "for_loop n (io_bind (scrollToTop a b) (\<lambda>u. perform (WaitForTimeout d))) w2 = (Inr (), w')"
      "trace w' = trace w2 @ concat (map (\<lambda>t. [Evaluate (SetScrollTop t), WaitForTimeout d]) ts)"
      "fault w' = fault w2" by blast
  have "length (t # ts) = Suc n" using 3(1) by simp
  moreover have "for_loop (Suc n) (io_bind (scrollToTop a b) (\<lambda>u. perform (WaitForTimeout d))) w
      = (Inr (), w')"
    using 1(1) 2(1) 3(2) by (simp add: io_bind_def)
  moreover have "trace w' = trace w
      @ concat (map (\<lambda>t. [Evaluate (SetScrollTop t), WaitForTimeout d]) (t # ts))"
    using 1(2) 2(2) 3(3) by simp
  moreover have "fault w' = fault w" using 1(3) 2(3) 3(4) by simp
  ultimately show ?case by blast
qed

lemma walk_then_collect:
  assumes nf: "\<forall>k. fault w k = None"
    and first: "\<And>w. \<forall>k. fault w k = None \<Longrightarrow>
      \<exists>w'. m w = (Inr (), w') \<and> trace w' = trace w @ [c] \<and> fault w' = fault w"
  shows "\<exists>ts. length ts = n
           \<and> trace (snd (io_bind m (\<lambda>u.
                 io_bind (for_loop n (io_bind (scrollToTop a b) (\<lambda>u. perform (WaitForTimeout d))))
                   (\<lambda>u. evaluate Fragments (reading g))) w))
               = trace w @ [c]
                 @ concat (map (\<lambda>t. [Evaluate (SetScrollTop t), WaitForTimeout d]) ts)
                 @ [Evaluate Fragments]"
proof -
  from first [OF nf] obtain w0
    where 0: "m w = (Inr (), w0)" "trace w0 = trace w @ [c]" "fault w0 = fault w" by blast
  with nf have n0: "\<forall>k. fault w0 k = None" by simp
  from walk_nofault [OF n0, of n a b d] obtain ts w1
    where 1: "length ts = n"
      "for_loop n (io_bind (scrollToTop a b) (\<lambda>u. perform (WaitForTimeout d))) w0 = (Inr (), w1)"
      "trace w1 = trace w0 @ concat (map (\<lambda>t. [Evaluate (SetScrollTop t), WaitForTimeout d]) ts)"
      "fault w1 = fault w0" by blast
  with n0 have n1: "\<forall>k. fault w1 k = None" by simp
  from collect_nofault [OF n1, of g] 0 1 show ?thesis
    by (auto simp add: io_bind_def)
qed

text \<open>
  C9 (amended). The history walk of \<open>extractChatGPT\<close>, \<open>extractGrok\<close> and
  \<open>extractSlack\<close> is a loop of 10, 15 and 15 iterations: whatever the page is and does,
  the extractor sets \<open>scrollTop\<close> at most that often, and when no browser call fails the
  walk is exactly that many times a scroll to the top followed by a wait of 1000, 1000
  and 800 milliseconds, between the first wait of the extractor and its structured
  extraction. \<open>extractDiscord\<close>, \<open>extractGeminiChat\<close>, \<open>extractNotebookLM\<close>,
  \<open>extractGoogleDoc\<close> and \<open>extractRaindrop\<close> never scroll.
\<close>

theorem history_walk_bounded:
  "scrolls_at_most 10 extractChatGPT \<and> scrolls_at_most 15 extractGrok
   \<and> scrolls_at_most 15 extractSlack
   \<and> scrolls_at_most 0 extractDiscord \<and> scrolls_at_most 0 extractGeminiChat
   \<and> scrolls_at_most 0 extractNotebookLM \<and> scrolls_at_most 0 extractGoogleDoc
   \<and> scrolls_at_most 0 extractRaindrop
   \<and> ((\<forall>k. fault w k = None) \<longrightarrow>
        (\<exists>ts. length ts = 10
           \<and> trace (snd (chatgptMessages w))
               = trace w @ [WaitForSelector [[AttrHas (js ''data-testid'') (js ''conversation-turn'')]] 15000]
                 @ concat (map (\<lambda>t. [Evaluate (SetScrollTop t), WaitForTimeout 1000]) ts)
                 @ [Evaluate Fragments])
        \<and> (\<exists>ts. length ts = 15
           \<and> trace (snd (grokMessages w))
               = trace w @ [WaitForTimeout 10000]
                 @ concat (map (\<lambda>t. [Evaluate (SetScrollTop t), WaitForTimeout 1000]) ts)
                 @ [Evaluate Fragments])
        \<and> (\<exists>ts. length ts = 15
           \<and> trace (snd (slackMessages w))
               = trace w @ [WaitForSelector [[Class (js ''c-message_kit__message'')],
                                             [AttrEq (js ''role'') (js ''listitem'')]] 15000]
                 @ concat (map (\<lambda>t. [Evaluate (SetScrollTop t), WaitForTimeout 800]) ts)
                 @ [Evaluate Fragments]))"
proof -
  have walks: "(\<exists>ts. length ts = 10
           \<and> trace (snd (chatgptMessages w))
               = trace w @ [WaitForSelector [[AttrHas (js ''data-testid'') (js ''conversation-turn'')]] 15000]
                 @ concat (map (\<lambda>t. [Evaluate (SetScrollTop t), WaitForTimeout 1000]) ts)
                 @ [Evaluate Fragments])
        \<and> (\<exists>ts. length ts = 15
           \<and> trace (snd (grokMessages w))
               = trace w @ [WaitForTimeout 10000]
                 @ concat (map (\<lambda>t. [Evaluate (SetScrollTop t), WaitForTimeout 1000]) ts)
                 @ [Evaluate Fragments])
        \<and> (\<exists>ts. length ts = 15
           \<and> trace (snd (slackMessages w))
               = trace w @ [WaitForSelector [[Class (js ''c-message_kit__message'')],
                                             [AttrEq (js ''role'') (js ''listitem'')]] 15000]
                 @ concat (map (\<lambda>t. [Evaluate (SetScrollTop t), WaitForTimeout 800]) ts)
                 @ [Evaluate Fragments])" if nf: "\<forall>k. fault w k = None"
    unfolding chatgptMessages_def grokMessages_def slackMessages_def
    by (intro conjI walk_then_collect [OF nf] waitForSelector_nofault perform_nofault)
  from walks scrolls_extractors scrolls_extractGoogleDoc show ?thesis by blast
qed

text \<open>
  C9 as stated fails for \<open>extractDiscord\<close>, a chat-style extractor without a history
  walk: on a Discord page with a message it returns the message after one wait and one
  script, and never scrolls.
\<close>

theorem discord_never_scrolls_counterexample:
  "fst (extractDiscord discordWorld) = Inr (js ''**ann**: hi there'')
   \<and> trace (snd (extractDiscord discordWorld))
       = [WaitForSelector [[AttrEq (js ''role'') (js ''list'')]] 15000, Evaluate Fragments]
   \<and> filter is_scroll (trace (snd (extractDiscord discordWorld))) = []"
  by (simp add: extractor_defs io_defs dom_defs sample_defs str_includes_def sublist_code
      tokens_def is_ascii_space_def is_space_def trim_def)

theorem history_walk_bounded_witness:
  "length (filter is_scroll (trace (snd (chatgptMessages sampleWorld)))) = 10
   \<and> length (filter is_scroll (trace (snd (grokMessages sampleWorld)))) = 15
   \<and> length (filter is_scroll (trace (snd (slackMessages sampleWorld)))) = 15"
proof -
  have nf: "\<forall>k. fault sampleWorld k = None" by (simp add: sampleWorld_def)
  have t: "trace sampleWorld = []" by (simp add: sampleWorld_def)
  have c: "length (filter is_scroll
             (concat (map (\<lambda>t. [Evaluate (SetScrollTop t), WaitForTimeout d]) ts))) = length ts"
    for d ts by (induction ts) simp_all
  from history_walk_bounded [of sampleWorld] nf
  obtain ts1 ts2 ts3 where "length ts1 = 10" "length ts2 = 15" "length ts3 = 15"
    "trace (snd (chatgptMessages sampleWorld))
       = trace sampleWorld @ [WaitForSelector [[AttrHas (js ''data-testid'') (js ''conversation-turn'')]] 15000]
         @ concat (map (\<lambda>t. [Evaluate (SetScrollTop t), WaitForTimeout 1000]) ts1)
         @ [Evaluate Fragments]"
    "trace (snd (grokMessages sampleWorld))
       = trace sampleWorld @ [WaitForTimeout 10000]
         @ concat (map (\<lambda>t. [Evaluate (SetScrollTop t), WaitForTimeout 1000]) ts2)
         @ [Evaluate Fragments]"
    "trace (snd (slackMessages sampleWorld))
       = trace sampleWorld @ [WaitForSelector [[Class (js ''c-message_kit__message'')],
                                     [AttrEq (js ''role'') (js ''listitem'')]] 15000]
         @ concat (map (\<lambda>t. [Evaluate (SetScrollTop t), WaitForTimeout 800]) ts3)
         @ [Evaluate Fragments]"
    by blast
  then show ?thesis by (simp add: t c)
qed

section \<open>Barrier handling\<close>


lemma settle_update [simp]:
  "settle (w\<lparr>trace := t\<rparr>) = settle w"
  "settle (w\<lparr>document := d\<rparr>) = settle w"
  by (simp_all add: settle_def fun_eq_iff)

lemma barrierSteps_update [simp]:
  "barrierSteps (w\<lparr>trace := t\<rparr>) = barrierSteps w"
  "barrierSteps (w\<lparr>document := d\<rparr>) = barrierSteps w"
  by (simp_all add: barrierSteps_def redirectSteps_def Let_def fun_eq_iff)















end
